theory Spec2Isabelle
  imports Main "HOL-Library.Word"
begin

section \<open>Values shared by the worker and the service\<close>

text \<open>
  A JavaScript \<^verbatim>\<open>Error\<close> is modelled by its message. Every \<^verbatim>\<open>throw\<close> of the source is
  an \<open>Inl\<close> of the result.
\<close>

datatype error = Error string

text \<open>
  Decimal rendering of a non-negative integer, as a template literal renders an
  integral number below \<open>10\<^sup>2\<^sup>1\<close>.
\<close>

definition digit :: "nat \<Rightarrow> char" where
  "digit d = ''0123456789'' ! d"

fun dec :: "nat \<Rightarrow> string" where
  "dec n = (if n < 10 then [digit n] else dec (n div 10) @ [digit (n mod 10)])"

declare dec.simps [simp del]

text \<open>
  The mesh record that \<^verbatim>\<open>generateMeshData\<close> returns and that the codec reads:
  \<^verbatim>\<open>vertices\<close> and \<^verbatim>\<open>normals\<close> are \<^verbatim>\<open>Float32Array\<close>s, \<^verbatim>\<open>indices\<close> is a
  \<^verbatim>\<open>Uint32Array\<close>. A field that is missing (or otherwise falsy) is \<open>None\<close>. The element
  type \<open>'v\<close> of the float buffers is left open; the codec only prints elements, through
  the parameter \<open>fmt\<close>.
\<close>

record 'v meshData =
  vertices :: "'v list option"
  indices :: "32 word list option"
  normals :: "'v list option"
  shapeCount :: nat

section \<open>Mesh codec (CascadeService.meshToSTL, CascadeService.meshToOBJ)\<close>

text \<open>
  A number computed from an index read is \<open>Some k\<close>, or \<open>None\<close> when the read was out
  of range: \<^verbatim>\<open>indices[i]\<close> is then \<^verbatim>\<open>undefined\<close>, and \<^verbatim>\<open>undefined * 3\<close> and
  \<^verbatim>\<open>undefined + 1\<close> are \<^verbatim>\<open>NaN\<close>.
\<close>

definition index_at :: "32 word list \<Rightarrow> nat \<Rightarrow> nat option" where
  "index_at ixs i = (if i < length ixs then Some (unat (ixs ! i)) else None)"

definition show_index :: "nat option \<Rightarrow> string" where
  "show_index v = (case v of None \<Rightarrow> ''NaN'' | Some k \<Rightarrow> dec k)"

text \<open>\<^verbatim>\<open>${buf[k]}\<close>: an element, or \<^verbatim>\<open>undefined\<close> out of range and at \<^verbatim>\<open>NaN\<close>.\<close>

definition show_elem :: "('v \<Rightarrow> string) \<Rightarrow> 'v list \<Rightarrow> nat option \<Rightarrow> string" where
  "show_elem fmt buf v =
     (case v of
        None \<Rightarrow> ''undefined''
      | Some k \<Rightarrow> if k < length buf then fmt (buf ! k) else ''undefined'')"

text \<open>The loop of \<^verbatim>\<open>meshToSTL\<close>: \<^verbatim>\<open>for (let i = 0; i < indices.length; i += 3)\<close>.\<close>

function stl_facets ::
  "('v \<Rightarrow> string) \<Rightarrow> 'v list \<Rightarrow> 32 word list \<Rightarrow> 'v list \<Rightarrow> nat \<Rightarrow> string \<Rightarrow> string" where
  "stl_facets fmt vs ixs ns i stl =
     (if i < length ixs then
        (let i1 = map_option (\<lambda>k. k * 3) (index_at ixs i);
             i2 = map_option (\<lambda>k. k * 3) (index_at ixs (i + 1));
             i3 = map_option (\<lambda>k. k * 3) (index_at ixs (i + 2));
             normal =
               (if (case i1 of None \<Rightarrow> False | Some k \<Rightarrow> length ns > k)
                then (show_elem fmt ns i1,
                      show_elem fmt ns (map_option (\<lambda>k. k + 1) i1),
                      show_elem fmt ns (map_option (\<lambda>k. k + 2) i1))
                else (''0'', ''0'', ''1''))
         in stl_facets fmt vs ixs ns (i + 3)
              (stl
               @ ''  facet normal '' @ fst normal @ '' '' @ fst (snd normal) @ '' ''
                   @ snd (snd normal) @ ''\<newline>''
               @ ''    outer loop\<newline>''
               @ ''      vertex '' @ show_elem fmt vs i1 @ '' ''
                   @ show_elem fmt vs (map_option (\<lambda>k. k + 1) i1) @ '' ''
                   @ show_elem fmt vs (map_option (\<lambda>k. k + 2) i1) @ ''\<newline>''
               @ ''      vertex '' @ show_elem fmt vs i2 @ '' ''
                   @ show_elem fmt vs (map_option (\<lambda>k. k + 1) i2) @ '' ''
                   @ show_elem fmt vs (map_option (\<lambda>k. k + 2) i2) @ ''\<newline>''
               @ ''      vertex '' @ show_elem fmt vs i3 @ '' ''
                   @ show_elem fmt vs (map_option (\<lambda>k. k + 1) i3) @ '' ''
                   @ show_elem fmt vs (map_option (\<lambda>k. k + 2) i3) @ ''\<newline>''
               @ ''    endloop\<newline>''
               @ ''  endfacet\<newline>''))
      else stl)"
  by pat_completeness auto
termination
  by (relation "measure (\<lambda>(fmt, vs, ixs, ns, i, stl). length ixs - i)") auto

declare stl_facets.simps [simp del]

definition meshToSTL :: "('v \<Rightarrow> string) \<Rightarrow> 'v meshData option \<Rightarrow> error + string" where
  "meshToSTL fmt meshData =
     (case meshData of
        None \<Rightarrow> Inl (Error ''Invalid mesh data for STL export'')
      | Some m \<Rightarrow>
          (case vertices m of
             None \<Rightarrow> Inl (Error ''Invalid mesh data for STL export'')
           | Some vs \<Rightarrow>
               (case indices m of
                  None \<Rightarrow> Inl (Error ''Invalid mesh data for STL export'')
                | Some ixs \<Rightarrow>
                    (let ns = (case normals m of None \<Rightarrow> [] | Some b \<Rightarrow> b);
                         stl = stl_facets fmt vs ixs ns 0 ''solid CascadeStudioExport\<newline>''
                     in Inr (stl @ ''endsolid CascadeStudioExport\<newline>'')))))"

text \<open>The three loops of \<^verbatim>\<open>meshToOBJ\<close>, each stepping by three.\<close>

function obj_vertices :: "('v \<Rightarrow> string) \<Rightarrow> 'v list \<Rightarrow> nat \<Rightarrow> string \<Rightarrow> string" where
  "obj_vertices fmt vs i obj =
     (if i < length vs then
        obj_vertices fmt vs (i + 3)
          (obj @ ''v '' @ show_elem fmt vs (Some i) @ '' '' @ show_elem fmt vs (Some (i + 1))
               @ '' '' @ show_elem fmt vs (Some (i + 2)) @ ''\<newline>'')
      else obj)"
  by pat_completeness auto
termination
  by (relation "measure (\<lambda>(fmt, vs, i, obj). length vs - i)") auto

declare obj_vertices.simps [simp del]

function obj_normals :: "('v \<Rightarrow> string) \<Rightarrow> 'v list \<Rightarrow> nat \<Rightarrow> string \<Rightarrow> string" where
  "obj_normals fmt ns i obj =
     (if i < length ns then
        obj_normals fmt ns (i + 3)
          (obj @ ''vn '' @ show_elem fmt ns (Some i) @ '' '' @ show_elem fmt ns (Some (i + 1))
               @ '' '' @ show_elem fmt ns (Some (i + 2)) @ ''\<newline>'')
      else obj)"
  by pat_completeness auto
termination
  by (relation "measure (\<lambda>(fmt, ns, i, obj). length ns - i)") auto

declare obj_normals.simps [simp del]

function obj_faces :: "32 word list \<Rightarrow> bool \<Rightarrow> nat \<Rightarrow> string \<Rightarrow> string" where
  "obj_faces ixs with_normals i obj =
     (if i < length ixs then
        (let v1 = show_index (map_option (\<lambda>k. k + 1) (index_at ixs i));
             v2 = show_index (map_option (\<lambda>k. k + 1) (index_at ixs (i + 1)));
             v3 = show_index (map_option (\<lambda>k. k + 1) (index_at ixs (i + 2)))
         in obj_faces ixs with_normals (i + 3)
              (if with_normals
               then obj @ ''f '' @ v1 @ ''//'' @ v1 @ '' '' @ v2 @ ''//'' @ v2 @ '' ''
                        @ v3 @ ''//'' @ v3 @ ''\<newline>''
               else obj @ ''f '' @ v1 @ '' '' @ v2 @ '' '' @ v3 @ ''\<newline>''))
      else obj)"
  by pat_completeness auto
termination
  by (relation "measure (\<lambda>(ixs, with_normals, i, obj). length ixs - i)") auto

declare obj_faces.simps [simp del]

definition meshToOBJ :: "('v \<Rightarrow> string) \<Rightarrow> 'v meshData option \<Rightarrow> error + string" where
  "meshToOBJ fmt meshData =
     (case meshData of
        None \<Rightarrow> Inl (Error ''Invalid mesh data for OBJ export'')
      | Some m \<Rightarrow>
          (case vertices m of
             None \<Rightarrow> Inl (Error ''Invalid mesh data for OBJ export'')
           | Some vs \<Rightarrow>
               (case indices m of
                  None \<Rightarrow> Inl (Error ''Invalid mesh data for OBJ export'')
                | Some ixs \<Rightarrow>
                    (let ns = (case normals m of None \<Rightarrow> [] | Some b \<Rightarrow> b);
                         obj = obj_vertices fmt vs 0 ''# CascadeStudio Generated OBJ File\<newline>'';
                         obj = (if length ns > 0 then obj_normals fmt ns 0 obj else obj);
                         obj = obj_faces ixs (length ns > 0) 0 obj
                     in Inr obj))))"

subsection \<open>Vocabulary for the codec's properties\<close>

text \<open>A buffer is absent when the mesh itself, its vertices or its indices are missing.\<close>

definition buffers_absent :: "'v meshData option \<Rightarrow> bool" where
  "buffers_absent meshData =
     (case meshData of None \<Rightarrow> True | Some m \<Rightarrow> vertices m = None \<or> indices m = None)"

text \<open>The vertex count of a flat buffer of coordinates.\<close>

definition vertex_count :: "'v list \<Rightarrow> nat" where
  "vertex_count vs = length vs div 3"

text \<open>Some index is not less than the vertex count.\<close>

definition index_out_of_range :: "'v meshData option \<Rightarrow> bool" where
  "index_out_of_range meshData =
     (case meshData of
        None \<Rightarrow> False
      | Some m \<Rightarrow>
          (case (vertices m, indices m) of
             (Some vs, Some ixs) \<Rightarrow> list_ex (\<lambda>w. vertex_count vs \<le> unat w) ixs
           | _ \<Rightarrow> False))"

text \<open>
  The invariant of the specification's data model: whole triples in both buffers, every
  index below the vertex count, and normals, when present, as long as the vertices.
\<close>

definition valid_mesh :: "'v meshData \<Rightarrow> bool" where
  "valid_mesh m =
     (case (vertices m, indices m) of
        (Some vs, Some ixs) \<Rightarrow>
          length vs mod 3 = 0 \<and> length ixs mod 3 = 0
          \<and> list_all (\<lambda>w. unat w < vertex_count vs) ixs
          \<and> (case normals m of None \<Rightarrow> True | Some ns \<Rightarrow> length ns = length vs)
      | _ \<Rightarrow> False)"

text \<open>The OBJ text as the specification words it: lines per triple, in three blocks.\<close>

fun triples :: "'a list \<Rightarrow> ('a \<times> 'a \<times> 'a) list" where
  "triples (a # b # c # rest) = (a, b, c) # triples rest"
| "triples rest = []"

definition v_line :: "('v \<Rightarrow> string) \<Rightarrow> 'v \<times> 'v \<times> 'v \<Rightarrow> string" where
  "v_line fmt t =
     (case t of (x, y, z) \<Rightarrow> ''v '' @ fmt x @ '' '' @ fmt y @ '' '' @ fmt z @ ''\<newline>'')"

definition vn_line :: "('v \<Rightarrow> string) \<Rightarrow> 'v \<times> 'v \<times> 'v \<Rightarrow> string" where
  "vn_line fmt t =
     (case t of (x, y, z) \<Rightarrow> ''vn '' @ fmt x @ '' '' @ fmt y @ '' '' @ fmt z @ ''\<newline>'')"

definition one_based :: "32 word \<Rightarrow> string" where
  "one_based w = dec (unat w + 1)"

definition f_line :: "bool \<Rightarrow> 32 word \<times> 32 word \<times> 32 word \<Rightarrow> string" where
  "f_line with_normals t =
     (case t of (a, b, c) \<Rightarrow>
        if with_normals
        then ''f '' @ one_based a @ ''//'' @ one_based a @ '' '' @ one_based b @ ''//''
             @ one_based b @ '' '' @ one_based c @ ''//'' @ one_based c @ ''\<newline>''
        else ''f '' @ one_based a @ '' '' @ one_based b @ '' '' @ one_based c @ ''\<newline>'')"

definition obj_text :: "('v \<Rightarrow> string) \<Rightarrow> 'v meshData \<Rightarrow> string" where
  "obj_text fmt m =
     ''# CascadeStudio Generated OBJ File\<newline>''
     @ concat (map (v_line fmt) (triples (case vertices m of None \<Rightarrow> [] | Some vs \<Rightarrow> vs)))
     @ concat (map (vn_line fmt) (triples (case normals m of None \<Rightarrow> [] | Some ns \<Rightarrow> ns)))
     @ concat (map (f_line (normals m \<noteq> None))
         (triples (case indices m of None \<Rightarrow> [] | Some ixs \<Rightarrow> ixs)))"

section \<open>The execution worker: shapes and tessellation\<close>

subsection \<open>JavaScript values\<close>

text \<open>
  The values a script handles (numbers, strings, booleans, \<^verbatim>\<open>undefined\<close>) are of an open
  type \<open>'v\<close>. Floating-point arithmetic, number formatting and the properties that every
  object inherits from \<^verbatim>\<open>Object.prototype\<close> are not modelled: they are the fields of a
  parameter \<open>js\<close>, and every theorem holds for every such parameter.
  \<open>js_num js k\<close> is the number with the integral value \<open>k\<close>, \<open>js_half js\<close> the literal
  \<^verbatim>\<open>0.5\<close>, \<open>js_fround js\<close> the rounding of a store into a \<^verbatim>\<open>Float32Array\<close>,
  \<open>js_string js\<close> the conversion to a string.
\<close>

record 'v js =
  js_num :: "int \<Rightarrow> 'v"
  js_half :: 'v
  js_PI :: 'v
  js_undefined :: 'v
  js_neg :: "'v \<Rightarrow> 'v"
  js_add :: "'v \<Rightarrow> 'v \<Rightarrow> 'v"
  js_mul :: "'v \<Rightarrow> 'v \<Rightarrow> 'v"
  js_div :: "'v \<Rightarrow> 'v \<Rightarrow> 'v"
  js_sin :: "'v \<Rightarrow> 'v"
  js_cos :: "'v \<Rightarrow> 'v"
  js_fround :: "'v \<Rightarrow> 'v"
  js_string :: "'v \<Rightarrow> string"
  js_proto :: "string \<Rightarrow> 'v option"

text \<open>
  Reading and writing a plain array: a read out of range is \<^verbatim>\<open>undefined\<close>, a write at
  the length appends.
\<close>

definition arr_get :: "'v js \<Rightarrow> 'v list \<Rightarrow> nat \<Rightarrow> 'v" where
  "arr_get js xs k = (if k < length xs then xs ! k else js_undefined js)"

definition arr_set :: "'v list \<Rightarrow> nat \<Rightarrow> 'v \<Rightarrow> 'v list" where
  "arr_set xs k v = (if k < length xs then xs[k := v] else xs @ [v])"

subsection \<open>Shapes\<close>

text \<open>
  A shape object of the mocked kernel. A shape is known to a script by reference; a
  reference is the position of the shape in \<^verbatim>\<open>currentShapes\<close>, where every shape the
  vocabulary creates is pushed. The field \<^verbatim>\<open>translation\<close> is absent until \<^verbatim>\<open>Translate\<close>
  sets it to a vector (an array, which is always truthy).
\<close>

type_synonym ref = nat

datatype 'v geometry =
    Box_type 'v 'v 'v
  | Sphere_type 'v
  | Cylinder_type 'v 'v
  | Union_type "ref list"
  | Difference_type ref "ref list"

record 'v shape =
  geometry :: "'v geometry"
  translation :: "'v list option"

subsection \<open>generateMeshData\<close>

definition box_vertices :: "'v js \<Rightarrow> 'v \<Rightarrow> 'v \<Rightarrow> 'v \<Rightarrow> 'v list" where
  "box_vertices js w h d =
     (let two = js_num js 2;
          nw = js_div js (js_neg js w) two; pw = js_div js w two;
          nh = js_div js (js_neg js h) two; ph = js_div js h two;
          nd = js_div js (js_neg js d) two; pd = js_div js d two
      in [nw, nh, nd,  pw, nh, nd,  pw, ph, nd,  nw, ph, nd,
          nw, nh, pd,  pw, nh, pd,  pw, ph, pd,  nw, ph, pd])"

definition box_indices :: "nat list" where
  "box_indices =
     [0,1,2, 0,2,3,
      4,7,6, 4,6,5,
      0,4,5, 0,5,1,
      2,6,7, 2,7,3,
      0,3,7, 0,7,4,
      1,5,6, 1,6,2]"

definition segments :: nat where
  "segments = 16"

text \<open>The body of the two nested loops over \<^verbatim>\<open>i, j <= segments\<close>.\<close>

definition sphere_point :: "'v js \<Rightarrow> 'v \<Rightarrow> nat \<Rightarrow> nat \<Rightarrow> 'v \<times> 'v \<times> 'v" where
  "sphere_point js radius i j =
     (let phi = js_mul js (js_div js (js_num js (int i)) (js_num js (int segments))) (js_PI js);
          theta = js_mul js (js_mul js (js_div js (js_num js (int j)) (js_num js (int segments)))
                    (js_num js 2)) (js_PI js);
          x = js_mul js (js_mul js radius (js_sin js phi)) (js_cos js theta);
          y = js_mul js (js_mul js radius (js_sin js phi)) (js_sin js theta);
          z = js_mul js radius (js_cos js phi)
      in (x, y, z))"

text \<open>
  The loops \<^verbatim>\<open>for (let i = 0; i <= segments; i++) for (let j = 0; j <= segments; j++)\<close>
  push in the order of the ranges, so each filled array is the concatenation over
  \<open>[0..<segments + 1]\<close>; the index loops run over \<open>[0..<segments]\<close>.
\<close>

definition sphere_vertices :: "'v js \<Rightarrow> 'v \<Rightarrow> 'v list" where
  "sphere_vertices js radius =
     concat (map (\<lambda>i. concat (map (\<lambda>j.
       (case sphere_point js radius i j of (x, y, z) \<Rightarrow> [x, y, z]))
       [0..<segments + 1])) [0..<segments + 1])"

definition sphere_normals :: "'v js \<Rightarrow> 'v \<Rightarrow> 'v list" where
  "sphere_normals js radius =
     concat (map (\<lambda>i. concat (map (\<lambda>j.
       (case sphere_point js radius i j of (x, y, z) \<Rightarrow>
          [js_div js x radius, js_div js y radius, js_div js z radius]))
       [0..<segments + 1])) [0..<segments + 1])"

definition sphere_indices :: "nat list" where
  "sphere_indices =
     concat (map (\<lambda>i. concat (map (\<lambda>j.
       (let first = i * (segments + 1) + j;
            second = first + segments + 1
        in [first, second, first + 1, second, second + 1, first + 1]))
       [0..<segments])) [0..<segments])"

text \<open>
  The three branches on \<^verbatim>\<open>shape.type\<close>: the vertices, indices and normals of one
  shape, before its translation.
\<close>

definition shape_mesh :: "'v js \<Rightarrow> 'v shape \<Rightarrow> 'v list \<times> nat list \<times> 'v list" where
  "shape_mesh js shape =
     (case geometry shape of
        Box_type w h d \<Rightarrow>
          (box_vertices js w h d, box_indices,
           replicate (length (box_vertices js w h d)) (js_num js 0))
      | Sphere_type radius \<Rightarrow>
          (sphere_vertices js radius, sphere_indices, sphere_normals js radius)
      | _ \<Rightarrow>
          ([js_num js 0, js_num js 0, js_num js 0, js_num js 1, js_num js 0, js_num js 0,
            js_half js, js_num js 1, js_num js 0],
           [0, 1, 2],
           [js_num js 0, js_num js 0, js_num js 1, js_num js 0, js_num js 0, js_num js 1,
            js_num js 0, js_num js 0, js_num js 1]))"

text \<open>
  \<^verbatim>\<open>for (let i = 0; i < shapeVertices.length; i += 3)\<close>, adding the translation to three
  consecutive entries in place.
\<close>

function translate_vertices :: "'v js \<Rightarrow> 'v list \<Rightarrow> 'v list \<Rightarrow> nat \<Rightarrow> 'v list" where
  "translate_vertices js t vs i =
     (if i < length vs then
        (let vs1 = arr_set vs i (js_add js (arr_get js vs i) (arr_get js t 0));
             vs2 = arr_set vs1 (i + 1) (js_add js (arr_get js vs1 (i + 1)) (arr_get js t 1));
             vs3 = arr_set vs2 (i + 2) (js_add js (arr_get js vs2 (i + 2)) (arr_get js t 2))
         in translate_vertices js t vs3 (i + 3))
      else vs)"
  by pat_completeness auto
termination
  by (relation "measure (\<lambda>(js, t, vs, i). length vs - i)") (auto simp: arr_set_def)

declare translate_vertices.simps [simp del]

text \<open>
  One round of \<^verbatim>\<open>shapes.forEach\<close> on the accumulators \<^verbatim>\<open>vertices\<close>, \<^verbatim>\<open>indices\<close>,
  \<^verbatim>\<open>normals\<close> (here \<open>all_vertices\<close>, \<open>all_indices\<close>, \<open>all_normals\<close>: the record's
  selectors have the plain names) and \<^verbatim>\<open>vertexOffset\<close>. The quotient \<^verbatim>\<open>shapeVertices.length / 3\<close> is written
  \<open>div\<close>; lemma \<open>shape_vertices_whole\<close> shows that it is exact.
\<close>

definition shape_vertices :: "'v js \<Rightarrow> 'v shape \<Rightarrow> 'v list" where
  "shape_vertices js shape =
     (case translation shape of
        None \<Rightarrow> fst (shape_mesh js shape)
      | Some t \<Rightarrow> translate_vertices js t (fst (shape_mesh js shape)) 0)"

definition add_shape ::
  "'v js \<Rightarrow> 'v list \<times> nat list \<times> 'v list \<times> nat \<Rightarrow> 'v shape \<Rightarrow>
   'v list \<times> nat list \<times> 'v list \<times> nat" where
  "add_shape js acc shape =
     (case acc of (all_vertices, all_indices, all_normals, vertexOffset) \<Rightarrow>
        (all_vertices @ shape_vertices js shape,
         all_indices @ map (\<lambda>index. index + vertexOffset) (fst (snd (shape_mesh js shape))),
         all_normals @ snd (snd (shape_mesh js shape)),
         vertexOffset + length (shape_vertices js shape) div 3))"

text \<open>
  The second parameter is \<^verbatim>\<open>maxDeviation\<close>. The result's index buffer is a
  \<^verbatim>\<open>Uint32Array\<close>: each index is stored modulo \<open>2\<^sup>3\<^sup>2\<close>.
\<close>

definition generateMeshData :: "'v js \<Rightarrow> 'v shape list \<Rightarrow> 'v \<Rightarrow> 'v meshData" where
  "generateMeshData js shapes maxDeviation =
     (case foldl (add_shape js) ([], [], [], 0) shapes of
        (all_vertices, all_indices, all_normals, vertexOffset) \<Rightarrow>
          \<lparr>vertices = Some (map (js_fround js) all_vertices),
           indices = Some (map of_nat all_indices),
           normals = Some (map (js_fround js) all_normals),
           shapeCount = length shapes\<rparr>)"

text \<open>The invariant of a mesh whose three buffers are present.\<close>

definition mesh_invariant :: "'v meshData \<Rightarrow> bool" where
  "mesh_invariant m =
     (case (vertices m, indices m, normals m) of
        (Some vs, Some ixs, Some ns) \<Rightarrow>
          list_all (\<lambda>w. unat w < vertex_count vs) ixs \<and> length ns = length vs
      | _ \<Rightarrow> False)"

text \<open>
  The loop invariant of \<^verbatim>\<open>shapes.forEach\<close>: the vertices hold \<open>vertexOffset\<close> whole
  triples, the normals are as long, and every index collected so far is below
  \<open>vertexOffset\<close>.
\<close>

definition acc_invariant :: "'v list \<times> nat list \<times> 'v list \<times> nat \<Rightarrow> bool" where
  "acc_invariant acc =
     (case acc of (all_vertices, all_indices, all_normals, vertexOffset) \<Rightarrow>
        length all_vertices = 3 * vertexOffset
        \<and> length all_normals = length all_vertices
        \<and> list_all (\<lambda>k. k < vertexOffset) all_indices)"

section \<open>The execution worker: evaluation\<close>

subsection \<open>State and messages\<close>

text \<open>
  \<^verbatim>\<open>guiState\<close> is an object used as a dictionary: the map holds its own properties.
\<close>

type_synonym 'v gui = "string \<Rightarrow> 'v option"

text \<open>A log entry \<^verbatim>\<open>{level, message}\<close>.\<close>

datatype log_entry = Log_entry string string

text \<open>What a call of the vocabulary returns to the script.\<close>

datatype 'v ret = Shape_ref ref | Shape_refs "ref list" | Value 'v

text \<open>
  The object \<^verbatim>\<open>executeCode\<close> returns: \<^verbatim>\<open>{success: true, result, shapes, logs, guiState}\<close>
  or \<^verbatim>\<open>{success: false, error, logs}\<close>.
\<close>

datatype 'v evaluation =
    Success "'v ret" "'v shape list" "log_entry list" "'v gui"
  | Failure string "log_entry list"

text \<open>An entry of the \<^verbatim>\<open>loadFiles\<close> answer: \<^verbatim>\<open>{filename, success, shapeId, message}\<close>.\<close>

datatype import_entry = Import_entry string bool string string

text \<open>The messages the worker posts to its parent, by their \<^verbatim>\<open>type\<close>.\<close>

datatype 'v message =
    Init_message bool
  | Log_message string string
  | Evaluate_message "'v evaluation"
  | Mesh_message "'v meshData" nat
  | LoadFiles_message "import_entry list"
  | STEP_message string
  | Error_message string
  | Ready_message string

text \<open>
  The module-level variables \<^verbatim>\<open>oc\<close> (here: whether it is set), \<^verbatim>\<open>currentShapes\<close> and
  \<^verbatim>\<open>currentGUIState\<close>, and the messages posted on \<^verbatim>\<open>parentPort\<close> so far, oldest first.
\<close>

record 'v worker =
  oc :: bool
  currentShapes :: "'v shape list"
  currentGUIState :: "'v gui"
  posted :: "'v message list"

definition postMessage :: "'v worker \<Rightarrow> 'v message \<Rightarrow> 'v worker" where
  "postMessage w m = w\<lparr>posted := posted w @ [m]\<rparr>"

text \<open>\<^verbatim>\<open>initializeOpenCascade\<close> sets the mocked kernel and returns \<^verbatim>\<open>true\<close>.\<close>

definition initializeOpenCascade :: "'v worker \<Rightarrow> bool \<times> 'v worker" where
  "initializeOpenCascade w = (True, w\<lparr>oc := True\<rparr>)"

subsection \<open>cascadeFunctions\<close>

text \<open>
  Each function of the vocabulary takes the worker's state and returns the value for the
  script with the new state, or the error it throws. Shape arguments are references to
  shapes of this evaluation; \<^verbatim>\<open>Translate\<close> and \<^verbatim>\<open>Difference\<close> accept one shape or an
  array of shapes.
\<close>

datatype target = One ref | Many "ref list"

definition push_shape :: "'v worker \<Rightarrow> 'v geometry \<Rightarrow> 'v ret \<times> 'v worker" where
  "push_shape w g =
     (Shape_ref (length (currentShapes w)),
      w\<lparr>currentShapes := currentShapes w @ [\<lparr>geometry = g, translation = None\<rparr>]\<rparr>)"

definition Box :: "'v worker \<Rightarrow> 'v \<Rightarrow> 'v \<Rightarrow> 'v \<Rightarrow> error + 'v ret \<times> 'v worker" where
  "Box w width height depth =
     (if \<not> oc w then Inl (Error ''OpenCascade not initialized'')
      else Inr (push_shape w (Box_type width height depth)))"

definition Sphere :: "'v worker \<Rightarrow> 'v \<Rightarrow> error + 'v ret \<times> 'v worker" where
  "Sphere w radius =
     (if \<not> oc w then Inl (Error ''OpenCascade not initialized'')
      else Inr (push_shape w (Sphere_type radius)))"

definition Cylinder :: "'v worker \<Rightarrow> 'v \<Rightarrow> 'v \<Rightarrow> error + 'v ret \<times> 'v worker" where
  "Cylinder w radius height =
     (if \<not> oc w then Inl (Error ''OpenCascade not initialized'')
      else Inr (push_shape w (Cylinder_type radius height)))"

definition set_translation :: "'v list \<Rightarrow> 'v shape list \<Rightarrow> ref \<Rightarrow> 'v shape list" where
  "set_translation vector shapes r =
     (if r < length shapes then shapes[r := (shapes ! r)\<lparr>translation := Some vector\<rparr>]
      else shapes)"

definition Translate :: "'v worker \<Rightarrow> 'v list \<Rightarrow> target \<Rightarrow> error + 'v ret \<times> 'v worker" where
  "Translate w vector shapes =
     (case shapes of
        Many rs \<Rightarrow>
          Inr (Shape_refs rs, w\<lparr>currentShapes := foldl (set_translation vector) (currentShapes w) rs\<rparr>)
      | One r \<Rightarrow>
          Inr (Shape_ref r, w\<lparr>currentShapes := set_translation vector (currentShapes w) r\<rparr>))"

definition Union_shapes :: "'v worker \<Rightarrow> ref list \<Rightarrow> error + 'v ret \<times> 'v worker" where
  "Union_shapes w shapes = Inr (push_shape w (Union_type shapes))"

definition Difference :: "'v worker \<Rightarrow> ref \<Rightarrow> target \<Rightarrow> error + 'v ret \<times> 'v worker" where
  "Difference w base tools =
     Inr (push_shape w (Difference_type base (case tools of Many rs \<Rightarrow> rs | One r \<Rightarrow> [r])))"

text \<open>
  \<^verbatim>\<open>currentGUIState[name]\<close>: an own property, else a property inherited from
  \<^verbatim>\<open>Object.prototype\<close>, else \<^verbatim>\<open>undefined\<close>.
\<close>

definition gui_read :: "'v js \<Rightarrow> 'v gui \<Rightarrow> string \<Rightarrow> 'v" where
  "gui_read js g name =
     (case g name of
        Some v \<Rightarrow> v
      | None \<Rightarrow> (case js_proto js name of Some v \<Rightarrow> v | None \<Rightarrow> js_undefined js))"

definition Slider ::
  "'v js \<Rightarrow> 'v worker \<Rightarrow> string \<Rightarrow> 'v \<Rightarrow> 'v \<Rightarrow> 'v \<Rightarrow> error + 'v ret \<times> 'v worker" where
  "Slider js w name defaultValue min_value max_value =
     (let v = (if gui_read js (currentGUIState w) name \<noteq> js_undefined js
               then gui_read js (currentGUIState w) name else defaultValue)
      in Inr (Value v, w))"

definition Checkbox ::
  "'v js \<Rightarrow> 'v worker \<Rightarrow> string \<Rightarrow> 'v \<Rightarrow> error + 'v ret \<times> 'v worker" where
  "Checkbox js w name defaultValue =
     (let v = (if gui_read js (currentGUIState w) name \<noteq> js_undefined js
               then gui_read js (currentGUIState w) name else defaultValue)
      in Inr (Value v, w))"

definition TextInput ::
  "'v js \<Rightarrow> 'v worker \<Rightarrow> string \<Rightarrow> 'v \<Rightarrow> error + 'v ret \<times> 'v worker" where
  "TextInput js w name defaultValue =
     (let v = (if gui_read js (currentGUIState w) name \<noteq> js_undefined js
               then gui_read js (currentGUIState w) name else defaultValue)
      in Inr (Value v, w))"

text \<open>\<^verbatim>\<open>defaultIndex || 0\<close>: a missing index and the index 0 both select entry 0.\<close>

definition Dropdown ::
  "'v js \<Rightarrow> 'v worker \<Rightarrow> string \<Rightarrow> 'v list \<Rightarrow> nat option \<Rightarrow> error + 'v ret \<times> 'v worker" where
  "Dropdown js w name options defaultIndex =
     (let v = (if gui_read js (currentGUIState w) name \<noteq> js_undefined js
               then gui_read js (currentGUIState w) name
               else arr_get js options (case defaultIndex of None \<Rightarrow> 0 | Some k \<Rightarrow> k))
      in Inr (Value v, w))"

text \<open>\<^verbatim>\<open>args.join(' ')\<close>, with \<open>js_string\<close> for the conversion of one argument.\<close>

fun join_space :: "string list \<Rightarrow> string" where
  "join_space [] = []"
| "join_space [s] = s"
| "join_space (s # t # rest) = s @ '' '' @ join_space (t # rest)"

text \<open>
  The injected \<^verbatim>\<open>console\<close> of \<^verbatim>\<open>createExecutionContext\<close>: each of \<^verbatim>\<open>log\<close>, \<^verbatim>\<open>error\<close>
  and \<^verbatim>\<open>warn\<close> posts a message of type \<^verbatim>\<open>log\<close> with its level.
\<close>

definition context_console ::
  "'v js \<Rightarrow> 'v worker \<Rightarrow> string \<Rightarrow> 'v list \<Rightarrow> error + 'v ret \<times> 'v worker" where
  "context_console js w level args =
     Inr (Value (js_undefined js),
          postMessage w (Log_message level (join_space (map (js_string js) args))))"

subsection \<open>Scripts\<close>

text \<open>
  The worker sees of a script only the calls it makes to the names in its scope. A script
  is therefore modelled by its calls: it returns, throws an \<^verbatim>\<open>Error\<close>, or makes a call
  and continues with the value the call returned. Arguments have the types the function
  library documents. A script that does not parse is \<open>Throw\<close> of the syntax error, which
  \<^verbatim>\<open>new Function\<close> raises inside the same \<^verbatim>\<open>try\<close>. Besides the injected names a script
  can call the methods of the global \<^verbatim>\<open>console\<close> object (as \<^verbatim>\<open>self.console\<close>), which
  \<^verbatim>\<open>executeCode\<close> has replaced by functions that push onto its local \<^verbatim>\<open>logs\<close>.
\<close>

datatype 'v call =
    Call_Box 'v 'v 'v
  | Call_Sphere 'v
  | Call_Cylinder 'v 'v
  | Call_Translate "'v list" target
  | Call_Union "ref list"
  | Call_Difference ref target
  | Call_Slider string 'v 'v 'v
  | Call_Checkbox string 'v
  | Call_TextInput string 'v
  | Call_Dropdown string "'v list" "nat option"
  | Call_console string "'v list"
  | Call_global_console string "'v list"

datatype 'v script =
    Return "'v ret"
  | Throw error
  | Do "'v call" "'v ret \<Rightarrow> 'v script"

text \<open>One call, on the worker's state and the local \<^verbatim>\<open>logs\<close> of \<^verbatim>\<open>executeCode\<close>.\<close>

definition with_logs ::
  "log_entry list \<Rightarrow> error + 'v ret \<times> 'v worker \<Rightarrow> error + 'v ret \<times> 'v worker \<times> log_entry list" where
  "with_logs logs r = (case r of Inl e \<Rightarrow> Inl e | Inr (v, w) \<Rightarrow> Inr (v, w, logs))"

definition perform ::
  "'v js \<Rightarrow> 'v call \<Rightarrow> 'v worker \<times> log_entry list \<Rightarrow>
   error + 'v ret \<times> 'v worker \<times> log_entry list" where
  "perform js c st =
     (case st of (w, logs) \<Rightarrow>
        (case c of
           Call_Box width height depth \<Rightarrow> with_logs logs (Box w width height depth)
         | Call_Sphere radius \<Rightarrow> with_logs logs (Sphere w radius)
         | Call_Cylinder radius height \<Rightarrow> with_logs logs (Cylinder w radius height)
         | Call_Translate vector shapes \<Rightarrow> with_logs logs (Translate w vector shapes)
         | Call_Union shapes \<Rightarrow> with_logs logs (Union_shapes w shapes)
         | Call_Difference base tools \<Rightarrow> with_logs logs (Difference w base tools)
         | Call_Slider name d lo hi \<Rightarrow> with_logs logs (Slider js w name d lo hi)
         | Call_Checkbox name d \<Rightarrow> with_logs logs (Checkbox js w name d)
         | Call_TextInput name d \<Rightarrow> with_logs logs (TextInput js w name d)
         | Call_Dropdown name options k \<Rightarrow> with_logs logs (Dropdown js w name options k)
         | Call_console level args \<Rightarrow> with_logs logs (context_console js w level args)
         | Call_global_console level args \<Rightarrow>
             Inr (Value (js_num js (int (length logs) + 1)), w,
                  logs @ [Log_entry level (join_space (map (js_string js) args))])))"

primrec run ::
  "'v js \<Rightarrow> 'v script \<Rightarrow> 'v worker \<times> log_entry list \<Rightarrow>
   (error + 'v ret) \<times> 'v worker \<times> log_entry list" where
  "run js (Return r) st = (Inr r, st)"
| "run js (Throw e) st = (Inl e, st)"
| "run js (Do c k) st =
     (case perform js c st of
        Inl e \<Rightarrow> (Inl e, st)
      | Inr (r, st') \<Rightarrow> run js (k r) st')"

subsection \<open>createExecutionContext and executeCode\<close>

text \<open>
  The names \<^verbatim>\<open>Object.keys(context)\<close> lists, which become the parameters of the function
  built from the script: the keys of \<^verbatim>\<open>cascadeFunctions\<close>, then \<^verbatim>\<open>console\<close>.
\<close>

definition context_keys :: "string list" where
  "context_keys =
     [''Box'', ''Sphere'', ''Cylinder'', ''Translate'', ''Union'', ''Difference'',
      ''Slider'', ''Checkbox'', ''TextInput'', ''Dropdown'', ''console'']"

text \<open>The parameter \<^verbatim>\<open>guiState\<close> defaults to the empty object.\<close>

definition createExecutionContext :: "'v worker \<Rightarrow> 'v gui option \<Rightarrow> 'v worker" where
  "createExecutionContext w guiState =
     w\<lparr>currentGUIState := (case guiState of None \<Rightarrow> Map.empty | Some g \<Rightarrow> g),
       currentShapes := []\<rparr>"

definition executeCode ::
  "'v js \<Rightarrow> 'v worker \<Rightarrow> 'v script \<Rightarrow> 'v gui option \<Rightarrow> 'v evaluation \<times> 'v worker" where
  "executeCode js w code guiState =
     (case run js code (createExecutionContext w guiState, []) of
        (Inr r, w', logs) \<Rightarrow>
          (Success r (currentShapes w') logs (currentGUIState w'), w')
      | (Inl (Error m), w', logs) \<Rightarrow>
          (Failure m [Log_entry ''error'' m], w'))"

subsection \<open>The message handler\<close>

text \<open>
  The requests by their \<^verbatim>\<open>type\<close>, with the payload the handler reads: the script and
  the GUI state, \<^verbatim>\<open>maxDeviation\<close>, the files (name and content).
\<close>

datatype 'v request =
    Init_request
  | Evaluate_request "'v script" "'v gui option"
  | Mesh_request 'v
  | LoadFiles_request "(string \<times> string) list"
  | STEP_request
  | Other_request string

text \<open>The mocked STEP file; \<open>stamp\<close> is \<^verbatim>\<open>new Date().toISOString()\<close>.\<close>

definition step_content :: "string \<Rightarrow> string" where
  "step_content stamp =
     ''ISO-10303-21;\<newline>''
     @ ''HEADER;\<newline>''
     @ ''FILE_DESCRIPTION((''
     @ [CHR 0x27] @ ''CascadeStudio Generated STEP File'' @ [CHR 0x27] @ ''),''
     @ [CHR 0x27] @ ''2;1'' @ [CHR 0x27] @ '');\<newline>''
     @ ''FILE_NAME('' @ [CHR 0x27] @ ''export.step'' @ [CHR 0x27] @ '','' @ [CHR 0x27] @ stamp
     @ [CHR 0x27] @ '',('' @ [CHR 0x27] @ ''CascadeStudio'' @ [CHR 0x27] @ ''),(''
     @ [CHR 0x27] @ ''CascadeStudio API'' @ [CHR 0x27] @ ''),'' @ [CHR 0x27] @ ''CascadeStudio''
     @ [CHR 0x27] @ '','' @ [CHR 0x27] @ ''CascadeStudio'' @ [CHR 0x27] @ '',''
     @ [CHR 0x27, CHR 0x27] @ '');\<newline>''
     @ ''FILE_SCHEMA(('' @ [CHR 0x27] @ ''AUTOMOTIVE_DESIGN'' @ [CHR 0x27] @ ''));\<newline>''
     @ ''ENDSEC;\<newline>''
     @ ''DATA;\<newline>''
     @ ''#1 = CARTESIAN_POINT('' @ [CHR 0x27] @ ''Origin'' @ [CHR 0x27] @ '',(0.,0.,0.));\<newline>''
     @ ''ENDSEC;\<newline>''
     @ ''END-ISO-10303-21;''"

text \<open>
  The handler of \<^verbatim>\<open>parentPort.on('message')\<close>. The clock is a parameter: \<open>clock k\<close> is
  the reading of \<^verbatim>\<open>Date.now()\<close> for the \<open>k\<close>-th file of \<^verbatim>\<open>loadFiles\<close>, \<open>stamp\<close> the ISO
  date of \<^verbatim>\<open>saveShapeSTEP\<close>. The values of the model (numbers, strings, shapes, lists of
  them) can all be cloned, so \<^verbatim>\<open>postMessage\<close> does not throw and the handler's
  \<^verbatim>\<open>catch\<close>, which would post a message of type \<^verbatim>\<open>error\<close>, is not entered.
\<close>

definition onmessage ::
  "'v js \<Rightarrow> (nat \<Rightarrow> nat) \<Rightarrow> string \<Rightarrow> 'v worker \<Rightarrow> 'v request \<Rightarrow> 'v worker" where
  "onmessage js clock stamp w request =
     (case request of
        Init_request \<Rightarrow>
          (case initializeOpenCascade w of (initialized, w') \<Rightarrow>
             postMessage w' (Init_message initialized))
      | Evaluate_request code guiState \<Rightarrow>
          (case executeCode js w code guiState of (result, w') \<Rightarrow>
             postMessage w' (Evaluate_message result))
      | Mesh_request maxDeviation \<Rightarrow>
          postMessage w
            (Mesh_message (generateMeshData js (currentShapes w) maxDeviation)
               (length (currentShapes w)))
      | LoadFiles_request files \<Rightarrow>
          postMessage w
            (LoadFiles_message
               (map (\<lambda>(k, name, content).
                  Import_entry name True (''imported_'' @ dec (clock k) @ ''_'' @ name)
                    (''Successfully imported '' @ name))
                (zip [0..<length files] files)))
      | STEP_request \<Rightarrow> postMessage w (STEP_message (step_content stamp))
      | Other_request type_name \<Rightarrow>
          postMessage w (Error_message (''Unknown message type: '' @ type_name)))"

text \<open>
  The worker when its module has been loaded: \<^verbatim>\<open>initializeOpenCascade()\<close> has run and
  the message \<^verbatim>\<open>ready\<close> is posted.
\<close>

definition started_worker :: "'v worker" where
  "started_worker =
     \<lparr>oc = True, currentShapes = [], currentGUIState = Map.empty,
      posted = [Ready_message ''CascadeStudio worker initialized successfully'']\<rparr>"

subsection \<open>The scope of an evaluated script\<close>

text \<open>
  \<^verbatim>\<open>new Function(...Object.keys(context), code)\<close> makes a function whose parameters are
  the keys of the context and whose body is the script. A function made by the
  \<^verbatim>\<open>Function\<close> constructor closes over the global scope only: an identifier of the body
  is the parameter of that name, else the property of that name of the global object,
  else unresolved (a \<^verbatim>\<open>ReferenceError\<close>).
\<close>

datatype 'g binding = Injected string | Global_binding 'g | Unresolved

definition resolve :: "(string \<Rightarrow> 'g option) \<Rightarrow> string \<Rightarrow> 'g binding" where
  "resolve global_scope name =
     (if name \<in> set context_keys then Injected name
      else (case global_scope name of Some x \<Rightarrow> Global_binding x | None \<Rightarrow> Unresolved))"

text \<open>
  The worker's global object: what the host (Node.js) defines, and the two properties the
  module sets when it is loaded, \<^verbatim>\<open>global.self = global\<close> and
  \<^verbatim>\<open>global.importScripts = () => {}\<close>.
\<close>

datatype 'g global_value = The_global_object | Empty_function | Host 'g

definition worker_global :: "(string \<Rightarrow> 'g option) \<Rightarrow> string \<Rightarrow> 'g global_value option" where
  "worker_global host =
     ((\<lambda>name. map_option Host (host name))
        (''self'' \<mapsto> The_global_object, ''importScripts'' \<mapsto> Empty_function))"

subsection \<open>Scripts of the examples\<close>

text \<open>
  \<^verbatim>\<open>let size = Slider("Size", 10, 5, 20); Box(size, size, size);\<close>
\<close>

definition size_script :: "'v js \<Rightarrow> 'v script" where
  "size_script js =
     Do (Call_Slider ''Size'' (js_num js 10) (js_num js 5) (js_num js 20))
       (\<lambda>size. case size of
          Value s \<Rightarrow> Do (Call_Box s s s) (\<lambda>box. Return (Value (js_undefined js)))
        | _ \<Rightarrow> Return (Value (js_undefined js)))"

text \<open>
  \<^verbatim>\<open>self.console.log(1); console.warn(2); throw new Error("boom");\<close>
\<close>

definition boom_script :: "'v js \<Rightarrow> 'v script" where
  "boom_script js =
     Do (Call_global_console ''log'' [js_num js 1])
       (\<lambda>pushed. Do (Call_console ''warn'' [js_num js 2])
          (\<lambda>posted. Throw (Error ''boom'')))"

text \<open>
  An instance of the parameter \<open>js\<close> for concrete runs: values are integers, with
  \<open>None\<close> for \<^verbatim>\<open>undefined\<close>; the arithmetic is integer arithmetic, the trigonometric
  functions and the rounding are left as the identity, and \<^verbatim>\<open>Object.prototype\<close> has the
  property \<^verbatim>\<open>constructor\<close>.
\<close>

definition lift2 :: "(int \<Rightarrow> int \<Rightarrow> int) \<Rightarrow> int option \<Rightarrow> int option \<Rightarrow> int option" where
  "lift2 f a b = (case (a, b) of (Some x, Some y) \<Rightarrow> Some (f x y) | _ \<Rightarrow> None)"

definition sample_js :: "int option js" where
  "sample_js =
     \<lparr>js_num = Some, js_half = Some 0, js_PI = Some 3, js_undefined = None,
      js_neg = map_option uminus, js_add = lift2 (+), js_mul = lift2 (*),
      js_div = lift2 (div), js_sin = (\<lambda>x. x), js_cos = (\<lambda>x. x), js_fround = (\<lambda>x. x),
      js_string = (\<lambda>v. case v of None \<Rightarrow> ''undefined''
                      | Some k \<Rightarrow> if k < 0 then ''-'' @ dec (nat (- k)) else dec (nat k)),
      js_proto = [''constructor'' \<mapsto> Some 0]\<rparr>"

section \<open>CascadeService\<close>

subsection \<open>Workers of the service\<close>

text \<open>
  \<^verbatim>\<open>workerInfo\<close> is \<^verbatim>\<open>{worker, id, createdAt, busy}\<close>; the worker thread is named by the
  id. The service holds \<^verbatim>\<open>activeWorkers\<close>, \<^verbatim>\<open>maxWorkers\<close> and \<^verbatim>\<open>workerTimeout\<close>. Two
  further components make the effects of \<^verbatim>\<open>new Worker\<close>, \<^verbatim>\<open>worker.terminate()\<close> and
  \<^verbatim>\<open>setTimeout\<close> visible: \<open>threads\<close> are the worker threads that were started and not
  terminated, \<open>timers\<close> the pending auto-cleanup timers.
\<close>

record workerInfo =
  worker_id :: string
  createdAt :: nat
  busy :: bool

record service =
  activeWorkers :: "string \<Rightarrow> workerInfo option"
  maxWorkers :: nat
  workerTimeout :: nat
  threads :: "string set"
  timers :: "string list"

definition constructor :: service where
  "constructor =
     \<lparr>activeWorkers = Map.empty, maxWorkers = 4, workerTimeout = 30000,
      threads = {}, timers = []\<rparr>"

text \<open>
  \<^verbatim>\<open>createWorker\<close>; \<open>workerId\<close> is the value of \<^verbatim>\<open>uuidv4()\<close>, \<open>now\<close> of \<^verbatim>\<open>Date.now()\<close>.
\<close>

definition createWorker :: "service \<Rightarrow> string \<Rightarrow> nat \<Rightarrow> workerInfo \<times> service" where
  "createWorker svc workerId now =
     (let info = \<lparr>worker_id = workerId, createdAt = now, busy = False\<rparr>
      in (info,
          svc\<lparr>activeWorkers := (activeWorkers svc)(workerId \<mapsto> info),
              threads := insert workerId (threads svc),
              timers := timers svc @ [workerId]\<rparr>))"

definition terminateWorker :: "service \<Rightarrow> string \<Rightarrow> service" where
  "terminateWorker svc workerId =
     (case activeWorkers svc workerId of
        None \<Rightarrow> svc
      | Some info \<Rightarrow>
          svc\<lparr>threads := threads svc - {worker_id info},
              activeWorkers := (activeWorkers svc)(workerId := None)\<rparr>)"

text \<open>The callback of the auto-cleanup timer of \<^verbatim>\<open>createWorker\<close>.\<close>

definition timer_fires :: "service \<Rightarrow> string \<Rightarrow> service" where
  "timer_fires svc workerId = terminateWorker (svc\<lparr>timers := remove1 workerId (timers svc)\<rparr>) workerId"

text \<open>\<^verbatim>\<open>workerInfo.busy = true\<close>, on the object that \<^verbatim>\<open>activeWorkers\<close> holds.\<close>

definition set_busy :: "workerInfo \<Rightarrow> service \<Rightarrow> service" where
  "set_busy info svc =
     (case activeWorkers svc (worker_id info) of
        None \<Rightarrow> svc
      | Some held \<Rightarrow> svc\<lparr>activeWorkers := (activeWorkers svc)(worker_id info \<mapsto> held\<lparr>busy := True\<rparr>)\<rparr>)"

subsection \<open>sendWorkerMessage\<close>

text \<open>
  What settles the promise of \<^verbatim>\<open>sendWorkerMessage\<close>: the first message of the worker, an
  error event of the worker, or the timeout.
\<close>

datatype 'v event = Message_event "'v message" | Error_event error | Timeout_event

text \<open>The fields of a response that the service reads; a missing field is \<open>None\<close>.\<close>

definition response_error :: "'v message \<Rightarrow> string option" where
  "response_error response =
     (case response of
        Evaluate_message (Failure e entries) \<Rightarrow> Some e
      | Error_message e \<Rightarrow> Some e
      | _ \<Rightarrow> None)"

definition response_logs :: "'v message \<Rightarrow> log_entry list option" where
  "response_logs response =
     (case response of
        Evaluate_message (Success r shapes entries g) \<Rightarrow> Some entries
      | Evaluate_message (Failure e entries) \<Rightarrow> Some entries
      | _ \<Rightarrow> None)"

definition response_guiState :: "'v message \<Rightarrow> 'v gui option" where
  "response_guiState response =
     (case response of
        Evaluate_message (Success r shapes entries g) \<Rightarrow> Some g
      | _ \<Rightarrow> None)"

definition response_meshData :: "'v message \<Rightarrow> 'v meshData option" where
  "response_meshData response =
     (case response of Mesh_message m n \<Rightarrow> Some m | _ \<Rightarrow> None)"

definition response_shapeCount :: "'v message \<Rightarrow> nat option" where
  "response_shapeCount response =
     (case response of Mesh_message m n \<Rightarrow> Some n | _ \<Rightarrow> None)"

definition response_content :: "'v message \<Rightarrow> string option" where
  "response_content response =
     (case response of STEP_message c \<Rightarrow> Some c | _ \<Rightarrow> None)"

text \<open>No message of the worker has a field \<^verbatim>\<open>shapeId\<close> of its own.\<close>

definition response_shapeId :: "'v message \<Rightarrow> string option" where
  "response_shapeId response = None"

text \<open>
  The promise rejects with the timeout error, with the worker's error, or, when the
  response has a truthy \<^verbatim>\<open>error\<close> (a non-empty string), with \<^verbatim>\<open>new Error(response.error)\<close>;
  otherwise it resolves with the response. The request is posted to the worker.
\<close>

definition sendWorkerMessage ::
  "workerInfo \<Rightarrow> 'v request \<Rightarrow> 'v event \<Rightarrow> error + 'v message" where
  "sendWorkerMessage info request event =
     (case event of
        Timeout_event \<Rightarrow> Inl (Error ''Worker operation timed out'')
      | Error_event e \<Rightarrow> Inl e
      | Message_event response \<Rightarrow>
          (case response_error response of
             Some e \<Rightarrow> if e \<noteq> [] then Inl (Error e) else Inr response
           | None \<Rightarrow> Inr response))"

subsection \<open>The operations\<close>

text \<open>
  \<^verbatim>\<open>try { body } finally { cleanup }\<close> on the service's state, for a cleanup that does not
  throw: the cleanup runs after the body however the body ends, and the body's result or
  error is the statement's.
\<close>

definition try_finally :: "('s \<Rightarrow> 'r \<times> 's) \<Rightarrow> ('s \<Rightarrow> 's) \<Rightarrow> 's \<Rightarrow> 'r \<times> 's" where
  "try_finally body cleanup s = (case body s of (r, s') \<Rightarrow> (r, cleanup s'))"

text \<open>
  The results: \<^verbatim>\<open>{success: true, meshData, logs, executionTime, shapeCount, guiState}\<close>,
  \<^verbatim>\<open>{success: true, shapeId, message}\<close> and \<^verbatim>\<open>{content, filename}\<close>. The content of a STEP
  export is \<^verbatim>\<open>result.content || result\<close>.
\<close>

datatype 'v script_result =
  Script_result "'v meshData option" "log_entry list" int nat "'v gui"

datatype import_result = Import_result string string

datatype 'v step_content = Content string | Whole_response "'v message"

datatype 'c export_result = Export_result 'c string

text \<open>
  Each operation takes, besides the arguments of the source, what the environment
  supplies: the id and the time for \<^verbatim>\<open>createWorker\<close>, the readings of \<^verbatim>\<open>Date.now()\<close>, and
  the event that settles each \<^verbatim>\<open>sendWorkerMessage\<close>.
\<close>

definition executeScript ::
  "service \<Rightarrow> string \<Rightarrow> nat \<Rightarrow> int \<Rightarrow> int \<Rightarrow> 'v event \<Rightarrow> 'v event \<Rightarrow>
   'v script \<Rightarrow> 'v gui \<Rightarrow> 'v \<Rightarrow> (error + 'v script_result) \<times> service" where
  "executeScript svc workerId created startTime endTime event1 event2 code guiState meshResolution =
     (case createWorker svc workerId created of (info, svc1) \<Rightarrow>
        try_finally
          (\<lambda>s.
            (case sendWorkerMessage info (Evaluate_request code (Some guiState)) event1 of
               Inl e \<Rightarrow> Inl e
             | Inr result \<Rightarrow>
                 (case sendWorkerMessage info (Mesh_request meshResolution) event2 of
                    Inl e \<Rightarrow> Inl e
                  | Inr meshResult \<Rightarrow>
                      Inr (Script_result
                            (response_meshData meshResult)
                            (case response_logs result of None \<Rightarrow> [] | Some entries \<Rightarrow> entries)
                            (endTime - startTime)
                            (case response_shapeCount meshResult of None \<Rightarrow> 0 | Some n \<Rightarrow> n)
                            (case response_guiState result of None \<Rightarrow> guiState | Some g \<Rightarrow> g))),
             set_busy info s))
          (\<lambda>s. terminateWorker s (worker_id info))
          svc1)"

definition importFile ::
  "service \<Rightarrow> string \<Rightarrow> nat \<Rightarrow> 'v event \<Rightarrow> string \<Rightarrow> string \<Rightarrow>
   (error + import_result) \<times> service" where
  "importFile svc workerId created event1 filename content =
     (case createWorker svc workerId created of (info, svc1) \<Rightarrow>
        try_finally
          (\<lambda>s.
            (case sendWorkerMessage info (LoadFiles_request [(filename, content)]) event1 of
               Inl e \<Rightarrow> Inl e
             | Inr result \<Rightarrow>
                 Inr (Import_result
                       (case response_shapeId result of
                          None \<Rightarrow> filename
                        | Some shapeId \<Rightarrow> if shapeId \<noteq> [] then shapeId else filename)
                       (''Successfully imported '' @ filename)),
             set_busy info s))
          (\<lambda>s. terminateWorker s (worker_id info))
          svc1)"

definition exportSTEP ::
  "service \<Rightarrow> string \<Rightarrow> nat \<Rightarrow> 'v event \<Rightarrow> 'v event \<Rightarrow> 'v script \<Rightarrow> 'v gui \<Rightarrow> 'v \<Rightarrow>
   (error + 'v step_content export_result) \<times> service" where
  "exportSTEP svc workerId created event1 event2 code guiState meshResolution =
     (case createWorker svc workerId created of (info, svc1) \<Rightarrow>
        try_finally
          (\<lambda>s.
            (case sendWorkerMessage info (Evaluate_request code (Some guiState)) event1 of
               Inl e \<Rightarrow> Inl e
             | Inr evaluated \<Rightarrow>
                 (case sendWorkerMessage info STEP_request event2 of
                    Inl e \<Rightarrow> Inl e
                  | Inr result \<Rightarrow>
                      Inr (Export_result
                            (case response_content result of
                               None \<Rightarrow> Whole_response result
                             | Some c \<Rightarrow> if c \<noteq> [] then Content c else Whole_response result)
                            ''export.step'')),
             set_busy info s))
          (\<lambda>s. terminateWorker s (worker_id info))
          svc1)"

definition exportSTL ::
  "'v js \<Rightarrow> service \<Rightarrow> string \<Rightarrow> nat \<Rightarrow> 'v event \<Rightarrow> 'v event \<Rightarrow> 'v script \<Rightarrow> 'v gui \<Rightarrow> 'v \<Rightarrow>
   (error + string export_result) \<times> service" where
  "exportSTL js svc workerId created event1 event2 code guiState meshResolution =
     (case createWorker svc workerId created of (info, svc1) \<Rightarrow>
        try_finally
          (\<lambda>s.
            (case sendWorkerMessage info (Evaluate_request code (Some guiState)) event1 of
               Inl e \<Rightarrow> Inl e
             | Inr evaluated \<Rightarrow>
                 (case sendWorkerMessage info (Mesh_request meshResolution) event2 of
                    Inl e \<Rightarrow> Inl e
                  | Inr meshResult \<Rightarrow>
                      (case meshToSTL (js_string js) (response_meshData meshResult) of
                         Inl e \<Rightarrow> Inl e
                       | Inr stlContent \<Rightarrow> Inr (Export_result stlContent ''export.stl''))),
             set_busy info s))
          (\<lambda>s. terminateWorker s (worker_id info))
          svc1)"

definition exportOBJ ::
  "'v js \<Rightarrow> service \<Rightarrow> string \<Rightarrow> nat \<Rightarrow> 'v event \<Rightarrow> 'v event \<Rightarrow> 'v script \<Rightarrow> 'v gui \<Rightarrow> 'v \<Rightarrow>
   (error + string export_result) \<times> service" where
  "exportOBJ js svc workerId created event1 event2 code guiState meshResolution =
     (case createWorker svc workerId created of (info, svc1) \<Rightarrow>
        try_finally
          (\<lambda>s.
            (case sendWorkerMessage info (Evaluate_request code (Some guiState)) event1 of
               Inl e \<Rightarrow> Inl e
             | Inr evaluated \<Rightarrow>
                 (case sendWorkerMessage info (Mesh_request meshResolution) event2 of
                    Inl e \<Rightarrow> Inl e
                  | Inr meshResult \<Rightarrow>
                      (case meshToOBJ (js_string js) (response_meshData meshResult) of
                         Inl e \<Rightarrow> Inl e
                       | Inr objContent \<Rightarrow> Inr (Export_result objContent ''export.obj''))),
             set_busy info s))
          (\<lambda>s. terminateWorker s (worker_id info))
          svc1)"

text \<open>
  A worker is released in a state of the service when it is neither in \<^verbatim>\<open>activeWorkers\<close>
  nor among the running threads.
\<close>

definition released :: "service \<Rightarrow> string \<Rightarrow> bool" where
  "released svc workerId = (activeWorkers svc workerId = None \<and> workerId \<notin> threads svc)"

subsection \<open>validateScript\<close>

text \<open>
  A JavaScript string is a sequence of UTF-16 code units; \<open>units\<close> is the string of an
  ASCII literal. The code unit 40 is the left parenthesis.
\<close>

type_synonym jsstring = "16 word list"

definition units :: "string \<Rightarrow> jsstring" where
  "units s = map (\<lambda>c. of_nat (of_char c)) s"














text \<open>An entry of \<^verbatim>\<open>errors\<close>: \<^verbatim>\<open>{message, line, column}\<close>.\<close>

record validation_error =
  message :: string
  line :: "nat option"
  column :: "nat option"










section \<open>Properties of the mesh codec\<close>

lemma drop_triple:
  "i + 2 < length xs \<Longrightarrow> drop i xs = xs ! i # xs ! (i + 1) # xs ! (i + 2) # drop (i + 3) xs"
proof -
  assume h: "i + 2 < length xs"
  have "drop i xs = xs ! i # drop (Suc i) xs"
    using h by (simp add: Cons_nth_drop_Suc)
  also have "drop (Suc i) xs = xs ! (i + 1) # drop (Suc (Suc i)) xs"
    using h by (simp add: Cons_nth_drop_Suc)
  also have "drop (Suc (Suc i)) xs = xs ! (i + 2) # drop (Suc (Suc (Suc i))) xs"
    using h by (simp add: Cons_nth_drop_Suc)
  finally show ?thesis by (simp add: numeral_3_eq_3)
qed

lemma whole_triple:
  assumes "length xs mod 3 = 0" "i mod 3 = 0" "i < length xs"
  shows "i + 2 < length xs"
  using assms by presburger

lemma v_line_triple:
  "v_line fmt (x, y, z) = ''v '' @ fmt x @ '' '' @ fmt y @ '' '' @ fmt z @ ''\<newline>''"
  by (simp add: v_line_def)

lemma vn_line_triple:
  "vn_line fmt (x, y, z) = ''vn '' @ fmt x @ '' '' @ fmt y @ '' '' @ fmt z @ ''\<newline>''"
  by (simp add: vn_line_def)

lemma f_line_triple:
  "f_line with_normals (a, b, c) =
     (if with_normals
      then ''f '' @ one_based a @ ''//'' @ one_based a @ '' '' @ one_based b @ ''//''
           @ one_based b @ '' '' @ one_based c @ ''//'' @ one_based c @ ''\<newline>''
      else ''f '' @ one_based a @ '' '' @ one_based b @ '' '' @ one_based c @ ''\<newline>'')"
  by (simp add: f_line_def)

lemma obj_vertices_lines:
  "length vs mod 3 = 0 \<Longrightarrow> i mod 3 = 0 \<Longrightarrow>
   obj_vertices fmt vs i obj = obj @ concat (map (v_line fmt) (triples (drop i vs)))"
proof (induction fmt vs i obj rule: obj_vertices.induct)
  case (1 fmt vs i obj)
  show ?case
  proof (cases "i < length vs")
    case True
    then have lt: "i + 2 < length vs"
      using "1.prems" by (rule_tac whole_triple)
    have step: "(i + 3) mod 3 = 0"
      using "1.prems" by presburger
    show ?thesis
      using True lt "1.IH" [OF True "1.prems"(1) step]
      by (subst obj_vertices.simps) (simp add: drop_triple [OF lt] v_line_triple show_elem_def)
  next
    case False
    then show ?thesis
      by (subst obj_vertices.simps) simp
  qed
qed

lemma obj_normals_lines:
  "length ns mod 3 = 0 \<Longrightarrow> i mod 3 = 0 \<Longrightarrow>
   obj_normals fmt ns i obj = obj @ concat (map (vn_line fmt) (triples (drop i ns)))"
proof (induction fmt ns i obj rule: obj_normals.induct)
  case (1 fmt ns i obj)
  show ?case
  proof (cases "i < length ns")
    case True
    then have lt: "i + 2 < length ns"
      using "1.prems" by (rule_tac whole_triple)
    have step: "(i + 3) mod 3 = 0"
      using "1.prems" by presburger
    show ?thesis
      using True lt "1.IH" [OF True "1.prems"(1) step]
      by (subst obj_normals.simps) (simp add: drop_triple [OF lt] vn_line_triple show_elem_def)
  next
    case False
    then show ?thesis
      by (subst obj_normals.simps) simp
  qed
qed

lemma obj_faces_lines:
  "length ixs mod 3 = 0 \<Longrightarrow> i mod 3 = 0 \<Longrightarrow>
   obj_faces ixs b i obj = obj @ concat (map (f_line b) (triples (drop i ixs)))"
proof (induction ixs b i obj rule: obj_faces.induct)
  case (1 ixs b i obj)
  show ?case
  proof (cases "i < length ixs")
    case True
    then have lt: "i + 2 < length ixs"
      using "1.prems" by (rule_tac whole_triple)
    have step: "(i + 3) mod 3 = 0"
      using "1.prems" by presburger
    show ?thesis
      using True lt "1.IH" [OF True refl refl refl "1.prems"(1) step]
      by (subst obj_faces.simps)
         (cases b; simp add: drop_triple [OF lt] f_line_triple one_based_def show_index_def
            index_at_def Let_def)
  next
    case False
    then show ?thesis
      by (subst obj_faces.simps) simp
  qed
qed

lemma valid_mesh_no_vertices:
  "list_all (\<lambda>w. unat w < vertex_count ([] :: 'v list)) ixs \<Longrightarrow> ixs = []"
  by (cases ixs) (simp_all add: vertex_count_def)

text \<open>
  C9. For every valid mesh, \<^verbatim>\<open>meshToOBJ\<close> succeeds and its text is the header, then one
  \<^verbatim>\<open>v x y z\<close> line per vertex, then one \<^verbatim>\<open>vn nx ny nz\<close> line per normal when normals
  are present, then one face line per index triple; a face line names each vertex (and
  normal) by its 0-based mesh index plus one, in the form \<^verbatim>\<open>f v1//v1 v2//v2 v3//v3\<close>
  exactly when normals are present and \<^verbatim>\<open>f v1 v2 v3\<close> otherwise.
\<close>

theorem meshToOBJ_layout:
  "valid_mesh m \<Longrightarrow> meshToOBJ fmt (Some m) = Inr (obj_text fmt m)"
proof -
  assume v: "valid_mesh m"
  then obtain vs ixs where vs: "vertices m = Some vs" and ixs: "indices m = Some ixs"
    by (auto simp: valid_mesh_def split: option.splits)
  from v vs ixs have v3: "length vs mod 3 = 0" and i3: "length ixs mod 3 = 0"
    and rng: "list_all (\<lambda>w. unat w < vertex_count vs) ixs"
    by (simp_all add: valid_mesh_def)
  have z: "(0::nat) mod 3 = 0" by simp
  show ?thesis
  proof (cases "normals m")
    case None
    then show ?thesis
      using vs ixs
      by (simp add: meshToOBJ_def obj_text_def obj_vertices_lines [OF v3 z]
          obj_faces_lines [OF i3 z])
  next
    case (Some ns)
    with v vs ixs have len: "length ns = length vs"
      by (simp add: valid_mesh_def)
    show ?thesis
    proof (cases "ns = []")
      case True
      with len have "vs = []" by simp
      with rng have "ixs = []" by (simp add: valid_mesh_no_vertices)
      with True \<open>vs = []\<close> Some vs ixs show ?thesis
        by (simp add: meshToOBJ_def obj_text_def obj_vertices.simps obj_faces.simps)
    next
      case False
      have n3: "length ns mod 3 = 0" using len v3 by simp
      from False Some vs ixs show ?thesis
        by (simp add: meshToOBJ_def obj_text_def obj_vertices_lines [OF v3 z]
            obj_normals_lines [OF n3 z] obj_faces_lines [OF i3 z])
    qed
  qed
qed

theorem meshToOBJ_layout_witness:
  "valid_mesh \<lparr>vertices = Some [0, 1, 2 :: nat], indices = Some [0, 0, 0],
       normals = Some [0, 0, 1], shapeCount = 1\<rparr>
   \<and> meshToOBJ dec (Some \<lparr>vertices = Some [0, 1, 2 :: nat], indices = Some [0, 0, 0],
       normals = Some [0, 0, 1], shapeCount = 1\<rparr>)
     = Inr (''# CascadeStudio Generated OBJ File\<newline>''
            @ ''v 0 1 2\<newline>'' @ ''vn 0 0 1\<newline>'' @ ''f 1//1 1//1 1//1\<newline>'')"
proof -
  have v: "valid_mesh \<lparr>vertices = Some [0, 1, 2 :: nat], indices = Some [0, 0, 0],
       normals = Some [0, 0, 1], shapeCount = 1\<rparr>"
    by (simp add: valid_mesh_def vertex_count_def)
  show ?thesis
    using v meshToOBJ_layout [OF v, of dec]
    by (simp add: obj_text_def v_line_triple vn_line_triple f_line_triple one_based_def
        dec.simps digit_def)
qed

text \<open>
  C6, as amended. \<^verbatim>\<open>meshToSTL\<close> and \<^verbatim>\<open>meshToOBJ\<close> fail, with the message
  \<^verbatim>\<open>Invalid mesh data for STL export\<close> (or \<^verbatim>\<open>OBJ\<close>), exactly when the mesh, its vertices
  buffer or its indices buffer is absent; in every other case they succeed, whether or
  not an index is out of range.
\<close>

theorem mesh_codec_fails_iff_absent:
  "(case meshToSTL fmt md of
      Inl e \<Rightarrow> buffers_absent md \<and> e = Error ''Invalid mesh data for STL export''
    | Inr text \<Rightarrow> \<not> buffers_absent md)
   \<and> (case meshToOBJ fmt md of
      Inl e \<Rightarrow> buffers_absent md \<and> e = Error ''Invalid mesh data for OBJ export''
    | Inr text \<Rightarrow> \<not> buffers_absent md)"
  by (simp add: meshToSTL_def meshToOBJ_def buffers_absent_def Let_def split: option.splits)

text \<open>
  C6 as stated fails: a mesh of one vertex whose indices are all 5 has an index out of
  range, and both functions return text, with \<^verbatim>\<open>undefined\<close> coordinates in the STL and
  the face \<^verbatim>\<open>f 6 6 6\<close> in the OBJ.
\<close>

theorem mesh_codec_out_of_range_counterexample:
  "index_out_of_range (Some \<lparr>vertices = Some [0, 0, 0 :: nat], indices = Some [5, 5, 5],
       normals = None, shapeCount = 1\<rparr>)
   \<and> meshToSTL dec (Some \<lparr>vertices = Some [0, 0, 0 :: nat], indices = Some [5, 5, 5],
       normals = None, shapeCount = 1\<rparr>)
     = Inr (''solid CascadeStudioExport\<newline>''
            @ ''  facet normal 0 0 1\<newline>''
            @ ''    outer loop\<newline>''
            @ ''      vertex undefined undefined undefined\<newline>''
            @ ''      vertex undefined undefined undefined\<newline>''
            @ ''      vertex undefined undefined undefined\<newline>''
            @ ''    endloop\<newline>''
            @ ''  endfacet\<newline>''
            @ ''endsolid CascadeStudioExport\<newline>'')
   \<and> meshToOBJ dec (Some \<lparr>vertices = Some [0, 0, 0 :: nat], indices = Some [5, 5, 5],
       normals = None, shapeCount = 1\<rparr>)
     = Inr (''# CascadeStudio Generated OBJ File\<newline>''
            @ ''v 0 0 0\<newline>'' @ ''f 6 6 6\<newline>'')"
  by (simp add: index_out_of_range_def vertex_count_def meshToSTL_def meshToOBJ_def
      stl_facets.simps obj_vertices.simps obj_faces.simps show_elem_def show_index_def
      index_at_def dec.simps digit_def Let_def)

section \<open>Properties of tessellation\<close>

lemma length_arr_set_in: "k < length xs \<Longrightarrow> length (arr_set xs k v) = length xs"
  by (simp add: arr_set_def)

lemma length_translate_vertices:
  "length vs mod 3 = 0 \<Longrightarrow> i mod 3 = 0 \<Longrightarrow> length (translate_vertices js t vs i) = length vs"
proof (induction js t vs i rule: translate_vertices.induct)
  case (1 js t vs i)
  show ?case
  proof (cases "i < length vs")
    case True
    then have lt: "i + 2 < length vs"
      using "1.prems" by (rule_tac whole_triple)
    define vs1 where "vs1 = arr_set vs i (js_add js (arr_get js vs i) (arr_get js t 0))"
    define vs2 where "vs2 = arr_set vs1 (i + 1) (js_add js (arr_get js vs1 (i + 1)) (arr_get js t 1))"
    define vs3 where "vs3 = arr_set vs2 (i + 2) (js_add js (arr_get js vs2 (i + 2)) (arr_get js t 2))"
    have len: "length vs3 = length vs"
      using lt by (simp add: vs1_def vs2_def vs3_def length_arr_set_in)
    have step: "(i + 3) mod 3 = 0"
      using "1.prems" by presburger
    have "length (translate_vertices js t vs3 (i + 3)) = length vs3"
      using "1.IH" [OF True vs1_def vs2_def vs3_def] len "1.prems"(1) step by simp
    then show ?thesis
      using True len
      by (subst translate_vertices.simps) (simp add: vs1_def vs2_def vs3_def Let_def)
  next
    case False
    then show ?thesis
      by (subst translate_vertices.simps) simp
  qed
qed

lemma length_concat_const:
  "(\<And>x. x \<in> set xs \<Longrightarrow> length (f x) = n) \<Longrightarrow> length (concat (map f xs)) = n * length xs"
  by (induction xs) simp_all

lemma length_sphere_vertices: "length (sphere_vertices js r) = 867"
  by (simp add: sphere_vertices_def segments_def length_concat_const [where n = 51]
      length_concat_const [where n = 3] split: prod.splits)

lemma length_sphere_normals: "length (sphere_normals js r) = 867"
  by (simp add: sphere_normals_def segments_def length_concat_const [where n = 51]
      length_concat_const [where n = 3] split: prod.splits)

lemma sphere_indices_bound: "k \<in> set sphere_indices \<Longrightarrow> k < 289"
  by (auto simp: sphere_indices_def segments_def Let_def)

lemma box_indices_bound: "k \<in> set box_indices \<Longrightarrow> k < 8"
  by (auto simp: box_indices_def)

lemma length_box_vertices: "length (box_vertices js w h d) = 24"
  by (simp add: box_vertices_def Let_def)

lemma shape_mesh_sizes:
  "\<exists>c. length (fst (shape_mesh js s)) = 3 * c
       \<and> length (snd (snd (shape_mesh js s))) = 3 * c
       \<and> list_all (\<lambda>k. k < c) (fst (snd (shape_mesh js s)))"
proof (cases "geometry s")
  case (Box_type w h d)
  then show ?thesis
    by (intro exI [where x = 8])
       (auto simp: shape_mesh_def length_box_vertices list_all_iff dest: box_indices_bound)
next
  case (Sphere_type r)
  then show ?thesis
    by (intro exI [where x = 289])
       (auto simp: shape_mesh_def length_sphere_vertices length_sphere_normals list_all_iff
          dest: sphere_indices_bound)
next
  case (Cylinder_type r h)
  then show ?thesis
    by (intro exI [where x = 3]) (simp add: shape_mesh_def)
next
  case (Union_type children)
  then show ?thesis
    by (intro exI [where x = 3]) (simp add: shape_mesh_def)
next
  case (Difference_type base tools)
  then show ?thesis
    by (intro exI [where x = 3]) (simp add: shape_mesh_def)
qed

lemma shape_vertices_whole:
  "length (shape_vertices js s) = length (fst (shape_mesh js s))
   \<and> 3 dvd length (shape_vertices js s)"
proof -
  obtain c where c: "length (fst (shape_mesh js s)) = 3 * c"
    using shape_mesh_sizes [of js s] by blast
  then have m: "length (fst (shape_mesh js s)) mod 3 = 0" by simp
  have z: "(0::nat) mod 3 = 0" by simp
  have "length (shape_vertices js s) = length (fst (shape_mesh js s))"
    by (cases "translation s")
       (simp_all add: shape_vertices_def length_translate_vertices [OF m z])
  with c show ?thesis by simp
qed

lemma add_shape_invariant:
  assumes "acc_invariant acc"
  shows "acc_invariant (add_shape js acc s)"
proof -
  obtain vs ixs ns off where acc: "acc = (vs, ixs, ns, off)"
    by (cases acc) auto
  obtain c where c: "length (fst (shape_mesh js s)) = 3 * c"
      "length (snd (snd (shape_mesh js s))) = 3 * c"
      "list_all (\<lambda>k. k < c) (fst (snd (shape_mesh js s)))"
    using shape_mesh_sizes [of js s] by blast
  have len: "length (shape_vertices js s) = 3 * c"
    using shape_vertices_whole [of js s] c(1) by simp
  show ?thesis
    using assms c len
    by (auto simp: acc add_shape_def acc_invariant_def list_all_iff)
qed

lemma foldl_add_shape_invariant:
  "acc_invariant acc \<Longrightarrow> acc_invariant (foldl (add_shape js) acc shapes)"
  by (induction shapes arbitrary: acc) (simp_all add: add_shape_invariant)

lemma unat_uint32_le: "unat (of_nat k :: 32 word) \<le> k"
  by (simp add: unat_of_nat)

text \<open>
  C7. The mesh that tessellation returns for any list of shapes has every value of its
  indices buffer strictly below the vertex count, and a normals buffer of the length of
  the vertices buffer.
\<close>

theorem generateMeshData_invariant:
  "mesh_invariant (generateMeshData js shapes maxDeviation)"
proof -
  obtain vs ixs ns off where
    f: "foldl (add_shape js) ([], [], [], 0) shapes = (vs, ixs, ns, off)"
    by (cases "foldl (add_shape js) ([], [], [], 0) shapes") auto
  have "acc_invariant (([], [], [], 0) :: 'a list \<times> nat list \<times> 'a list \<times> nat)"
    by (simp add: acc_invariant_def)
  then have "acc_invariant (vs, ixs, ns, off)"
    using foldl_add_shape_invariant [of "([], [], [], 0)" js shapes] f by simp
  then have len: "length vs = 3 * off" "length ns = length vs"
    and rng: "\<And>k. k \<in> set ixs \<Longrightarrow> k < off"
    by (auto simp: acc_invariant_def list_all_iff)
  have "unat (of_nat k :: 32 word) < off" if "k \<in> set ixs" for k
    using rng [OF that] unat_uint32_le [of k] by simp
  then show ?thesis
    using len
    by (auto simp: generateMeshData_def f mesh_invariant_def vertex_count_def list_all_iff)
qed

text \<open>
  A concrete run, with integers for numbers: the box of side 2, moved by (10, 0, 0), has
  8 vertices and 12 triangles.
\<close>

lemma box_vertices_example:
  "shape_vertices sample_js
     \<lparr>geometry = Box_type (Some 2) (Some 2) (Some 2),
       translation = Some [Some 10, Some 0, Some 0]\<rparr>
   = map Some [9, -1, -1,  11, -1, -1,  11, 1, -1,  9, 1, -1,
               9, -1, 1,  11, -1, 1,  11, 1, 1,  9, 1, 1]"
  by (simp add: shape_vertices_def shape_mesh_def
      box_vertices_def translate_vertices.simps arr_set_def arr_get_def
      sample_js_def lift2_def Let_def)

lemma generateMeshData_box_example:
  "generateMeshData sample_js
     [\<lparr>geometry = Box_type (Some 2) (Some 2) (Some 2),
       translation = Some [Some 10, Some 0, Some 0]\<rparr>] (Some 1)
   = \<lparr>vertices = Some (map Some [9, -1, -1,  11, -1, -1,  11, 1, -1,  9, 1, -1,
                                   9, -1, 1,  11, -1, 1,  11, 1, 1,  9, 1, 1]),
      indices = Some [0,1,2, 0,2,3, 4,7,6, 4,6,5, 0,4,5, 0,5,1,
                      2,6,7, 2,7,3, 0,3,7, 0,7,4, 1,5,6, 1,6,2],
      normals = Some (map Some [0,0,0, 0,0,0, 0,0,0, 0,0,0, 0,0,0, 0,0,0, 0,0,0, 0,0,0]),
      shapeCount = 1\<rparr>"
proof -
  have n: "snd (snd (shape_mesh sample_js
      \<lparr>geometry = Box_type (Some 2) (Some 2) (Some 2),
        translation = Some [Some 10, Some 0, Some 0]\<rparr>))
    = map Some [0,0,0, 0,0,0, 0,0,0, 0,0,0, 0,0,0, 0,0,0, 0,0,0, 0,0,0]"
    by (simp add: shape_mesh_def box_vertices_def Let_def sample_js_def)
  have i: "fst (snd (shape_mesh sample_js
      \<lparr>geometry = Box_type (Some 2) (Some 2) (Some 2),
        translation = Some [Some 10, Some 0, Some 0]\<rparr>)) = box_indices"
    by (simp add: shape_mesh_def)
  show ?thesis
    by (simp add: generateMeshData_def add_shape_def box_vertices_example n i)
       (simp add: box_indices_def sample_js_def)
qed

text \<open>
  C10. Tessellation does not depend on the resolution: for every list of shapes and any
  two values of \<^verbatim>\<open>maxDeviation\<close> the meshes are identical.
\<close>

theorem generateMeshData_ignores_maxDeviation:
  "generateMeshData js shapes d1 = generateMeshData js shapes d2"
  by (simp add: generateMeshData_def)

section \<open>Properties of the worker lifecycle\<close>

lemma try_finally_snd:
  "snd (try_finally (\<lambda>s. (r, f s)) cleanup s0) = cleanup (f s0)"
  by (simp add: try_finally_def)

lemma released_after_cleanup:
  "released
     (terminateWorker (set_busy (fst (createWorker svc workerId now))
        (snd (createWorker svc workerId now)))
        (worker_id (fst (createWorker svc workerId now)))) workerId"
  by (simp add: createWorker_def set_busy_def terminateWorker_def released_def Let_def)

text \<open>
  The exit paths of an operation are the values of the events that settle its
  \<^verbatim>\<open>sendWorkerMessage\<close> calls; a timeout is one of them.
\<close>

lemma executeScript_timeout:
  "fst (executeScript svc workerId created t0 t1 Timeout_event e2 code g res)
     = Inl (Error ''Worker operation timed out'')"
  by (simp add: executeScript_def try_finally_def sendWorkerMessage_def createWorker_def Let_def)

text \<open>
  C3. Each of \<^verbatim>\<open>executeScript\<close>, \<^verbatim>\<open>importFile\<close>, \<^verbatim>\<open>exportSTEP\<close>, \<^verbatim>\<open>exportSTL\<close> and
  \<^verbatim>\<open>exportOBJ\<close> leaves the worker it acquired terminated and out of \<^verbatim>\<open>activeWorkers\<close>,
  whatever settles its round trips: a response, a fault reported by the worker, an error
  event or a timeout.
\<close>

theorem operations_release_worker:
  "released (snd (executeScript svc workerId created t0 t1 e1 e2 code g res)) workerId
   \<and> released (snd (importFile svc workerId created e1 filename content)) workerId
   \<and> released (snd (exportSTEP svc workerId created e1 e2 code g res)) workerId
   \<and> released (snd (exportSTL js svc workerId created e1 e2 code g res)) workerId
   \<and> released (snd (exportOBJ js svc workerId created e1 e2 code g res)) workerId"
proof (intro conjI)
  show "released (snd (executeScript svc workerId created t0 t1 e1 e2 code g res)) workerId"
    using released_after_cleanup [of svc workerId created]
    by (simp add: executeScript_def try_finally_snd split_beta)
  show "released (snd (importFile svc workerId created e1 filename content)) workerId"
    using released_after_cleanup [of svc workerId created]
    by (simp add: importFile_def try_finally_snd split_beta)
  show "released (snd (exportSTEP svc workerId created e1 e2 code g res)) workerId"
    using released_after_cleanup [of svc workerId created]
    by (simp add: exportSTEP_def try_finally_snd split_beta)
  show "released (snd (exportSTL js svc workerId created e1 e2 code g res)) workerId"
    using released_after_cleanup [of svc workerId created]
    by (simp add: exportSTL_def try_finally_snd split_beta)
  show "released (snd (exportOBJ js svc workerId created e1 e2 code g res)) workerId"
    using released_after_cleanup [of svc workerId created]
    by (simp add: exportOBJ_def try_finally_snd split_beta)
qed

text \<open>
  C2. The code at the claim's failing input: a service that holds \<^verbatim>\<open>maxWorkers = 4\<close>
  live workers is asked for another one. \<^verbatim>\<open>createWorker\<close> never reads \<^verbatim>\<open>maxWorkers\<close>; it
  returns a fifth worker, and five workers are live.
\<close>

theorem createWorker_beyond_maxWorkers:
  "(let s4 = snd (createWorker (snd (createWorker (snd (createWorker (snd (createWorker
               constructor ''w1'' 0)) ''w2'' 0)) ''w3'' 0)) ''w4'' 0);
        s5 = snd (createWorker s4 ''w5'' 0)
    in maxWorkers s4 = 4
       \<and> dom (activeWorkers s4) = {''w1'', ''w2'', ''w3'', ''w4''}
       \<and> card (dom (activeWorkers s4)) = 4
       \<and> dom (activeWorkers s5) = {''w1'', ''w2'', ''w3'', ''w4'', ''w5''}
       \<and> threads s5 = {''w1'', ''w2'', ''w3'', ''w4'', ''w5''}
       \<and> card (dom (activeWorkers s5)) = 5)"
  by (auto simp: createWorker_def constructor_def Let_def)

section \<open>Properties of script evaluation\<close>

lemma perform_keeps_gui:
  "perform js c (w, logs) = Inr (r, w', logs') \<Longrightarrow> currentGUIState w' = currentGUIState w"
  by (cases c)
     (auto simp: perform_def with_logs_def Box_def Sphere_def Cylinder_def Translate_def
        Union_shapes_def Difference_def Slider_def Checkbox_def TextInput_def Dropdown_def
        context_console_def push_shape_def postMessage_def Let_def
        split: if_splits target.splits sum.splits)

lemma run_keeps_gui:
  "run js code (w, logs) = (r, w', logs') \<Longrightarrow> currentGUIState w' = currentGUIState w"
proof (induction code arbitrary: w logs)
  case (Return x)
  then show ?case by simp
next
  case (Throw x)
  then show ?case by simp
next
  case (Do c k)
  show ?case
  proof (cases "perform js c (w, logs)")
    case (Inl e)
    with Do.prems show ?thesis by simp
  next
    case (Inr res)
    obtain v w1 logs1 where res: "res = (v, w1, logs1)"
      by (cases res) auto
    from Inr res have p: "perform js c (w, logs) = Inr (v, w1, logs1)" by simp
    from Do.prems p have "run js (k v) (w1, logs1) = (r, w', logs')" by simp
    then have "currentGUIState w' = currentGUIState w1"
      by (rule Do.IH [OF rangeI])
    with perform_keeps_gui [OF p] show ?thesis by simp
  qed
qed

lemma executeCode_returns_input_gui:
  "fst (executeCode js w code g) = Success r shapes logs g'
   \<Longrightarrow> g' = (case g of None \<Rightarrow> Map.empty | Some m \<Rightarrow> m)"
proof -
  assume a: "fst (executeCode js w code g) = Success r shapes logs g'"
  obtain res w1 logs1 where run: "run js code (createExecutionContext w g, []) = (res, w1, logs1)"
    by (cases "run js code (createExecutionContext w g, [])") auto
  have "currentGUIState w1 = currentGUIState (createExecutionContext w g)"
    by (rule run_keeps_gui [OF run])
  with a run show ?thesis
    by (cases res) (auto simp: executeCode_def createExecutionContext_def split: error.splits)
qed

text \<open>
  C1, as amended. Each GUI-control accessor (\<^verbatim>\<open>Slider\<close>, \<^verbatim>\<open>Checkbox\<close>, \<^verbatim>\<open>TextInput\<close>,
  \<^verbatim>\<open>Dropdown\<close>) yields the caller-supplied value when the control name is an own property
  of the GUI state with a value other than \<^verbatim>\<open>undefined\<close>, and the script-declared
  default when the name is neither an own property of the GUI state nor the name of a
  property inherited from \<^verbatim>\<open>Object.prototype\<close>; for \<^verbatim>\<open>Dropdown\<close> the default is
  \<^verbatim>\<open>options[defaultIndex || 0]\<close>. Whatever the name, no accessor changes the worker's
  state. The GUI state of the worker is the one passed in (the empty one when none was
  passed) when the evaluation starts, no call of the script changes it, and a successful
  evaluation returns it.
\<close>

theorem gui_controls_resolve_without_recording:
  "(currentGUIState w name = Some v \<and> v \<noteq> js_undefined js \<longrightarrow>
      Slider js w name d lo hi = Inr (Value v, w)
      \<and> Checkbox js w name d = Inr (Value v, w)
      \<and> TextInput js w name d = Inr (Value v, w)
      \<and> Dropdown js w name options k = Inr (Value v, w))
   \<and> (currentGUIState w name = None \<and> js_proto js name = None \<longrightarrow>
      Slider js w name d lo hi = Inr (Value d, w)
      \<and> Checkbox js w name d = Inr (Value d, w)
      \<and> TextInput js w name d = Inr (Value d, w)
      \<and> Dropdown js w name options k
          = Inr (Value (arr_get js options (case k of None \<Rightarrow> 0 | Some i \<Rightarrow> i)), w))
   \<and> (\<exists>v1 v2 v3 v4.
         Slider js w name d lo hi = Inr (Value v1, w)
         \<and> Checkbox js w name d = Inr (Value v2, w)
         \<and> TextInput js w name d = Inr (Value v3, w)
         \<and> Dropdown js w name options k = Inr (Value v4, w))
   \<and> currentGUIState (createExecutionContext w0 g)
       = (case g of None \<Rightarrow> Map.empty | Some m \<Rightarrow> m)
   \<and> (perform js c (w1, entries) = Inr (ret, w2, entries')
        \<longrightarrow> currentGUIState w2 = currentGUIState w1)
   \<and> (case fst (executeCode js w0 code g) of
         Success r shapes logs g' \<Rightarrow> g' = (case g of None \<Rightarrow> Map.empty | Some m \<Rightarrow> m)
       | Failure e logs \<Rightarrow> True)"
proof (intro conjI impI)
  show "case fst (executeCode js w0 code g) of
         Success r shapes logs g' \<Rightarrow> g' = (case g of None \<Rightarrow> Map.empty | Some m \<Rightarrow> m)
       | Failure e logs \<Rightarrow> True"
    using executeCode_returns_input_gui [of js w0 code g]
    by (cases "fst (executeCode js w0 code g)") auto
  show "currentGUIState w2 = currentGUIState w1"
    if "perform js c (w1, entries) = Inr (ret, w2, entries')"
    using that by (rule perform_keeps_gui)
qed (simp_all add: Slider_def Checkbox_def TextInput_def Dropdown_def gui_read_def
    createExecutionContext_def)

text \<open>
  The theorem at \<^verbatim>\<open>Slider("Size", 10, 5, 20)\<close>: with \<^verbatim>\<open>{Size: 15}\<close> the value is 15, with
  the empty GUI state it is the default 10; the state is returned unchanged. A call of
  \<^verbatim>\<open>Box\<close> adds a shape and keeps the GUI state.
\<close>

theorem gui_controls_witness:
  "Slider sample_js (started_worker\<lparr>currentGUIState := [''Size'' \<mapsto> Some 15]\<rparr>) ''Size''
       (Some 10) (Some 5) (Some 20)
     = Inr (Value (Some 15), started_worker\<lparr>currentGUIState := [''Size'' \<mapsto> Some 15]\<rparr>)
   \<and> Slider sample_js started_worker ''Size'' (Some 10) (Some 5) (Some 20)
     = Inr (Value (Some 10), started_worker)
   \<and> perform sample_js (Call_Box (Some 1) (Some 1) (Some 1)) (started_worker, [])
     = Inr (Shape_ref 0,
            started_worker\<lparr>currentShapes :=
              [\<lparr>geometry = Box_type (Some 1) (Some 1) (Some 1), translation = None\<rparr>]\<rparr>, [])
   \<and> currentGUIState (started_worker\<lparr>currentShapes :=
         [\<lparr>geometry = Box_type (Some 1) (Some 1) (Some 1), translation = None\<rparr>]\<rparr>)
     = currentGUIState (started_worker :: int option worker)"
proof -
  have b: "perform sample_js (Call_Box (Some 1) (Some 1) (Some 1)) (started_worker, [])
     = Inr (Shape_ref 0,
            started_worker\<lparr>currentShapes :=
              [\<lparr>geometry = Box_type (Some 1) (Some 1) (Some 1), translation = None\<rparr>]\<rparr>, [])"
    by (simp add: perform_def with_logs_def Box_def push_shape_def started_worker_def)
  have p: "currentGUIState (started_worker\<lparr>currentGUIState := [''Size'' \<mapsto> Some 15]\<rparr>) ''Size''
      = Some (Some 15) \<and> Some 15 \<noteq> js_undefined sample_js"
    by (simp add: sample_js_def)
  have a: "currentGUIState (started_worker :: int option worker) ''Size'' = None
      \<and> js_proto sample_js ''Size'' = None"
    by (simp add: sample_js_def started_worker_def)
  note present = gui_controls_resolve_without_recording [where js = sample_js
      and name = "''Size''"
      and w = "started_worker\<lparr>currentGUIState := [''Size'' \<mapsto> Some 15]\<rparr>"
      and v = "Some 15" and d = "Some 10" and lo = "Some 5" and hi = "Some 20"]
  note absent = gui_controls_resolve_without_recording [where js = sample_js
      and name = "''Size''" and w = started_worker and d = "Some 10" and lo = "Some 5"
      and hi = "Some 20" and c = "Call_Box (Some 1) (Some 1) (Some 1)"
      and ?w1.0 = started_worker and entries = "[]" and ret = "Shape_ref 0"
      and ?w2.0 = "started_worker\<lparr>currentShapes :=
        [\<lparr>geometry = Box_type (Some 1) (Some 1) (Some 1), translation = None\<rparr>]\<rparr>"
      and entries' = "[]"]
  have s15: "Slider sample_js (started_worker\<lparr>currentGUIState := [''Size'' \<mapsto> Some 15]\<rparr>)
      ''Size'' (Some 10) (Some 5) (Some 20)
    = Inr (Value (Some 15), started_worker\<lparr>currentGUIState := [''Size'' \<mapsto> Some 15]\<rparr>)"
    using present p by blast
  have s10: "Slider sample_js started_worker ''Size'' (Some 10) (Some 5) (Some 20)
    = Inr (Value (Some 10), started_worker)"
    using absent a by blast
  have kept: "currentGUIState (started_worker\<lparr>currentShapes :=
         [\<lparr>geometry = Box_type (Some 1) (Some 1) (Some 1), translation = None\<rparr>]\<rparr>)
     = currentGUIState (started_worker :: int option worker)"
    using absent b by blast
  show ?thesis
    using s15 s10 b kept by blast
qed

text \<open>
  The same script with \<^verbatim>\<open>{Size: 15}\<close>: the box has the side 15, and the GUI state comes
  back as it was passed.
\<close>

lemma size_script_with_state:
  "fst (executeCode sample_js started_worker (size_script sample_js)
          (Some [''Size'' \<mapsto> Some 15]))
   = Success (Value None)
       [\<lparr>geometry = Box_type (Some 15) (Some 15) (Some 15), translation = None\<rparr>]
       [] [''Size'' \<mapsto> Some 15]"
  by (simp add: executeCode_def createExecutionContext_def started_worker_def size_script_def
      perform_def with_logs_def Slider_def Box_def push_shape_def gui_read_def sample_js_def
      Let_def)

text \<open>
  C1 as stated fails: evaluating the script that declares \<^verbatim>\<open>Slider("Size", 10, 5, 20)\<close>
  with the empty GUI state succeeds, makes one shape, and returns a GUI state that has no
  entry for \<^verbatim>\<open>Size\<close>.
\<close>

theorem size_script_counterexample:
  "\<forall>js :: 'v js.
     (case fst (executeCode js started_worker (size_script js) (Some Map.empty)) of
        Success r shapes logs g \<Rightarrow> g ''Size'' = None \<and> length shapes = 1
      | Failure e logs \<Rightarrow> False)"
  by (simp add: executeCode_def createExecutionContext_def started_worker_def size_script_def
      perform_def with_logs_def Slider_def Box_def push_shape_def Let_def)

lemma executeCode_fault:
  "fst (run js code (createExecutionContext w g, [])) = Inl (Error m)
   \<Longrightarrow> fst (executeCode js w code g) = Failure m [Log_entry ''error'' m]"
  by (cases "run js code (createExecutionContext w g, [])")
     (auto simp: executeCode_def)

lemma onmessage_Evaluate_posts_result:
  "last (posted (onmessage js clock stamp w (Evaluate_request code g)))
     = Evaluate_message (fst (executeCode js w code g))"
  by (simp add: onmessage_def postMessage_def split_beta)

lemma sendWorkerMessage_fault:
  "m \<noteq> [] \<Longrightarrow>
   sendWorkerMessage info request (Message_event (Evaluate_message (Failure m entries)))
     = Inl (Error m)"
  by (simp add: sendWorkerMessage_def response_error_def)

text \<open>
  C5, as amended. When a script faults with the message \<open>m\<close>, the result of
  \<^verbatim>\<open>executeCode\<close>, which the worker posts as its answer to \<^verbatim>\<open>Evaluate\<close>, is
  \<^verbatim>\<open>{success: false, error: m, logs: [{level: 'error', message: m}]}\<close>: the fault message
  and one entry made from it, without the entries logged before the fault.
\<close>

theorem script_fault_drops_logs:
  "fst (run js code (createExecutionContext w g, [])) = Inl (Error m) \<longrightarrow>
     fst (executeCode js w code g) = Failure m [Log_entry ''error'' m]
     \<and> last (posted (onmessage js clock stamp w (Evaluate_request code g)))
         = Evaluate_message (Failure m [Log_entry ''error'' m])"
  by (simp add: executeCode_fault onmessage_Evaluate_posts_result)

text \<open>The theorem at the script that logs twice and throws \<^verbatim>\<open>boom\<close>.\<close>

theorem script_fault_witness:
  "fst (run sample_js (boom_script sample_js) (createExecutionContext started_worker None, []))
     = Inl (Error ''boom'')
   \<and> fst (executeCode sample_js started_worker (boom_script sample_js) None)
     = Failure ''boom'' [Log_entry ''error'' ''boom'']
   \<and> last (posted (onmessage sample_js (\<lambda>k. 0) [] started_worker
        (Evaluate_request (boom_script sample_js) None)))
     = Evaluate_message (Failure ''boom'' [Log_entry ''error'' ''boom''])"
proof -
  have f: "fst (run sample_js (boom_script sample_js)
      (createExecutionContext started_worker None, [])) = Inl (Error ''boom'')"
    by (simp add: boom_script_def perform_def with_logs_def context_console_def)
  show ?thesis
    using f script_fault_drops_logs [where js = sample_js and code = "boom_script sample_js"
        and w = started_worker and g = None and m = "''boom''" and clock = "\<lambda>k. 0"
        and stamp = "[]"]
    by simp
qed

text \<open>
  C5 as stated fails: at the fault of that script the local \<^verbatim>\<open>logs\<close> of \<^verbatim>\<open>executeCode\<close>
  hold the entry of \<^verbatim>\<open>self.console.log(1)\<close>, and the warning of the injected console was
  posted as a message of its own; the answer to \<^verbatim>\<open>Evaluate\<close> holds neither. The messages
  of the worker are \<^verbatim>\<open>ready\<close>, the warning and the answer, in this order; when they
  settle the round trips of \<^verbatim>\<open>executeScript\<close> in this order, the operation does not fail:
  it returns a result without mesh and with no log entry.
\<close>

theorem boom_script_counterexample:
  "\<forall>(js :: 'v js) clock stamp res.
     snd (snd (run js (boom_script js) (createExecutionContext started_worker None, [])))
       = [Log_entry ''log'' (js_string js (js_num js 1))]
     \<and> posted (onmessage js clock stamp started_worker (Evaluate_request (boom_script js) None))
       = [Ready_message ''CascadeStudio worker initialized successfully'',
          Log_message ''warn'' (js_string js (js_num js 2)),
          Evaluate_message (Failure ''boom'' [Log_entry ''error'' ''boom''])]
     \<and> executeScript constructor ''w1'' 0 0 1
         (Message_event (Ready_message ''CascadeStudio worker initialized successfully''))
         (Message_event (Log_message ''warn'' (js_string js (js_num js 2))))
         (boom_script js) Map.empty res
       = (Inr (Script_result None [] 1 0 Map.empty), constructor\<lparr>timers := [''w1'']\<rparr>)"
  by (simp add: boom_script_def perform_def with_logs_def context_console_def postMessage_def
      createExecutionContext_def started_worker_def onmessage_def executeCode_def
      executeScript_def try_finally_def sendWorkerMessage_def response_error_def
      response_logs_def response_guiState_def response_meshData_def response_shapeCount_def
      createWorker_def set_busy_def terminateWorker_def constructor_def Let_def)

text \<open>
  C4. The code at the claim's failing input, a script that mentions \<^verbatim>\<open>self\<close>,
  \<^verbatim>\<open>process\<close> or \<^verbatim>\<open>eval\<close>: none of them is among the injected names, so each is resolved
  in the worker's global scope. There \<^verbatim>\<open>self\<close> is the global object itself, and the
  host's \<^verbatim>\<open>process\<close> and \<^verbatim>\<open>eval\<close> are reached as they are.
\<close>

theorem evaluated_code_reaches_globals:
  "''self'' \<notin> set context_keys \<and> ''process'' \<notin> set context_keys
   \<and> ''eval'' \<notin> set context_keys
   \<and> (\<forall>host :: string \<Rightarrow> 'g option.
         resolve (worker_global host) ''self'' = Global_binding The_global_object)
   \<and> (\<forall>(p :: 'g) e.
         resolve (worker_global [''process'' \<mapsto> p, ''eval'' \<mapsto> e]) ''process''
           = Global_binding (Host p)
         \<and> resolve (worker_global [''process'' \<mapsto> p, ''eval'' \<mapsto> e]) ''eval''
           = Global_binding (Host e))"
  by (simp add: resolve_def worker_global_def context_keys_def)

section \<open>Properties of validateScript\<close>

lemma length_units [simp]: "length (units s) = length s"
  by (simp add: units_def)






lemma units_append: "units (a @ b) = units a @ units b"
  by (simp add: units_def)



























end
